theory Spec2Isabelle
  imports Main "HOL-Library.Word" "HOL-Library.Sublist"
begin

unbundle bit_operations_syntax

section \<open>P4Go: command results, output dispatch, spec conversion and resolve\<close>

text \<open>
  A shallow embedding of the P4Go session engine: the result collection
  (\<^verbatim>\<open>p4goresult.cpp\<close>), the client user object that receives the engine's output
  callbacks (\<^verbatim>\<open>p4goclientuser.cpp\<close>), the spec manager (\<^verbatim>\<open>p4gospecmgr.cpp\<close>),
  the merge data (\<^verbatim>\<open>p4gomergedata.cpp\<close>), the client API (\<^verbatim>\<open>p4goclientapi.cpp\<close>)
  and the Go layer on top of them (\<^verbatim>\<open>p4.go\<close>).

  The Perforce C++ API (\<^verbatim>\<open>StrDict\<close>, \<^verbatim>\<open>Error\<close>, \<^verbatim>\<open>Spec\<close>, \<^verbatim>\<open>ClientApi\<close>,
  \<^verbatim>\<open>ClientMerge\<close>) is not part of the repository. Its containers are modelled by
  their documented behaviour; whatever it computes (form rendering and parsing, the
  server's output, its own resolve) is taken as a parameter.

  Strings stand for C strings: byte sequences without an embedded NUL, so that
  \<^verbatim>\<open>strcpy\<close>, \<^verbatim>\<open>C.GoString\<close> and \<^verbatim>\<open>C.CString\<close> are the identity on them.

  Objects are values. Memory is written out in the two places where the code
  leaves it in a state that its later steps depend on: what \<^verbatim>\<open>Destroy\<close> frees of
  a result, and the storage of a dictionary that the Go layer frees through the
  pointers it iterates with. A null pointer that is dereferenced and storage
  that is freed twice are faults, which end the program.
\<close>

subsection \<open>The API's string dictionary\<close>

text \<open>
  \<^verbatim>\<open>StrBufDict\<close>: an insertion-ordered table of variable/value pairs.
  \<^verbatim>\<open>SetVar\<close> overwrites the value of a variable that is present and appends
  otherwise; \<^verbatim>\<open>GetVar(var)\<close> looks a variable up; \<^verbatim>\<open>GetVar(i, var, val)\<close> reads
  the i-th pair and returns 0 past the end.
\<close>

type_synonym StrDict = "(string \<times> string) list"

definition GetVar :: "StrDict \<Rightarrow> string \<Rightarrow> string option" where
  "GetVar d var = map_of d var"

fun SetVar :: "string \<Rightarrow> string \<Rightarrow> StrDict \<Rightarrow> StrDict" where
  "SetVar var val [] = [(var, val)]"
| "SetVar var val ((k, v) # d) =
     (if k = var then (var, val) # d else (k, v) # SetVar var val d)"

definition RemoveVar :: "string \<Rightarrow> StrDict \<Rightarrow> StrDict" where
  "RemoveVar var d = filter (\<lambda>kv. fst kv \<noteq> var) d"

definition GetVarI :: "StrDict \<Rightarrow> nat \<Rightarrow> (string \<times> string) option" where
  "GetVarI d i = (if i < length d then Some (d ! i) else None)"

text \<open>
  A dictionary on the heap, as the code hands it on by pointer: its pairs, and
  whether the storage of its last variable and value has been freed. The Go
  layer frees it, see \<^verbatim>\<open>goCallHandleStatFunction\<close> and \<^verbatim>\<open>Run\<close> of p4.go
  below.
\<close>

record StrBufDict =
  entries :: StrDict
  last_freed :: bool

subsection \<open>The API's error object\<close>

datatype ErrorSeverity = E_EMPTY | E_INFO | E_WARN | E_FAILED | E_FATAL

text \<open>
  One \<^verbatim>\<open>ErrorId\<close> of an \<^verbatim>\<open>Error\<close>: its packed code, the severity the API reads
  from it and the text \<^verbatim>\<open>Error::Fmt\<close> renders for it.
\<close>

record ErrorId =
  id_code :: int
  id_severity :: ErrorSeverity
  id_fmt :: string

record Error =
  severity :: ErrorSeverity
  ids :: "ErrorId list"
  edict :: StrDict

text \<open>\<^verbatim>\<open>MakeError\<close>: a fresh, empty error.\<close>

definition MakeError :: Error where
  "MakeError = \<lparr>severity = E_EMPTY, ids = [], edict = []\<rparr>"

fun sev_rank :: "ErrorSeverity \<Rightarrow> nat" where
  "sev_rank E_EMPTY = 0"
| "sev_rank E_INFO = 1"
| "sev_rank E_WARN = 2"
| "sev_rank E_FAILED = 3"
| "sev_rank E_FATAL = 4"

text \<open>
  \<^verbatim>\<open>e->Set( severity, fmt )\<close>: the first error clears what was there, a more severe
  one raises the severity, and the message is appended. The API gives such a
  message the code \<^verbatim>\<open>ErrorOf( 0, 0, severity, 0, 0 )\<close>.
\<close>

definition set_code :: "ErrorSeverity \<Rightarrow> int" where
  "set_code s = push_bit 28 (int (sev_rank s))"

definition Error_Set :: "ErrorSeverity \<Rightarrow> string \<Rightarrow> Error \<Rightarrow> Error" where
  "Error_Set s msg e =
     (let old = (if severity e = E_EMPTY then [] else ids e)
      in e\<lparr>severity := (if sev_rank (severity e) \<le> sev_rank s then s else severity e),
            ids := old @ [\<lparr>id_code = set_code s, id_severity = s, id_fmt = msg\<rparr>]\<rparr>)"

text \<open>\<^verbatim>\<open>e->Test()\<close>: more severe than a warning.\<close>

definition Error_Test :: "Error \<Rightarrow> bool" where
  "Error_Test e = (sev_rank (severity e) > sev_rank E_WARN)"

definition GetErrorCount :: "Error \<Rightarrow> nat" where
  "GetErrorCount e = length (ids e)"

subsection \<open>Values of the Go layer (p4.go)\<close>

type_synonym Dictionary = "string \<rightharpoonup> string"

record P4MessageLine =
  line_severity :: ErrorSeverity
  code :: int
  fmt :: string

record P4Message =
  msg_severity :: ErrorSeverity
  lines :: "P4MessageLine list"
  msgdict :: Dictionary

text \<open>
  The loop \<^verbatim>\<open>for C.ResultGetKeyPair(r, j, &k, &v) != 0 { j++; d[k] = v }\<close>, and the
  same loop over \<^verbatim>\<open>C.StrDictGetKeyPair\<close>: every pair of the dictionary in order,
  a later value of a key replacing an earlier.
\<close>

definition to_Dictionary :: "StrDict \<Rightarrow> Dictionary \<Rightarrow> Dictionary" where
  "to_Dictionary pairs d = fold (\<lambda>kv m. m(fst kv \<mapsto> snd kv)) pairs d"

definition to_lines :: "Error \<Rightarrow> P4MessageLine list" where
  "to_lines e =
     map (\<lambda>i. \<lparr>line_severity = id_severity i, code = id_code i, fmt = id_fmt i\<rparr>) (ids e)"

text \<open>
  The \<^verbatim>\<open>P4Message\<close> that the Go layer builds from an error object line by line;
  its dictionary is not set.
\<close>

definition to_P4Message :: "Error \<Rightarrow> P4Message" where
  "to_P4Message e = \<lparr>msg_severity = severity e, lines = to_lines e, msgdict = Map.empty\<rparr>"

text \<open>
  \<^verbatim>\<open>C.int( r )\<close> of a Go \<^verbatim>\<open>int\<close>: Go's \<^verbatim>\<open>int\<close> has 64 bits here and C's 32; the
  conversion keeps the low 32 bits and reads them as a signed number.
\<close>

definition C_int :: "int \<Rightarrow> int" where
  "C_int r = signed_take_bit 31 r"

subsection \<open>Spec data and the spec manager (p4gospecmgr.cpp)\<close>

text \<open>
  \<^verbatim>\<open>P4GoSpecData\<close> is a \<^verbatim>\<open>SpecDataTable\<close> (its dictionary, read through
  \<^verbatim>\<open>Dict()\<close>) with one more dictionary, \<^verbatim>\<open>extras\<close>. \<open>Dict_freed\<close> tells whether
  the storage of the last variable and value of \<^verbatim>\<open>Dict()\<close> has been freed.
\<close>

record P4GoSpecData =
  Dict :: StrDict
  extras :: StrDict
  Dict_freed :: bool

text \<open>\<^verbatim>\<open>P4GoSpecData( StrDict* dict )\<close>: the table over the dictionary, no extras.\<close>

definition new_P4GoSpecData :: "StrDict \<Rightarrow> P4GoSpecData" where
  "new_P4GoSpecData d = \<lparr>Dict = d, extras = [], Dict_freed = False\<rparr>"

text \<open>
  The API's \<^verbatim>\<open>Spec\<close> class, a parameter. Each operation that takes an
  \<^verbatim>\<open>Error*\<close> returns the error object as it leaves it:
  \<^verbatim>\<open>Spec s( specDef, "", &e )\<close>, the constructor; \<^verbatim>\<open>Format\<close>, which renders a
  dictionary as a form; \<^verbatim>\<open>ParseNoValid\<close>, which reads a form into a dictionary.
\<close>

record SpecApi =
  Spec_new :: "string \<Rightarrow> Error \<Rightarrow> Error"
  Spec_Format :: "string \<Rightarrow> StrDict \<Rightarrow> string"
  Spec_ParseNoValid :: "string \<Rightarrow> string \<Rightarrow> Error \<Rightarrow> StrDict \<times> Error"

text \<open>The generated table of built-in spec definitions.\<close>

definition speclist :: "(string \<times> string) list" where
  "speclist =
  [(''branch'',
      ''Branch;code:301;rq;ro;fmt:L;len:32;;Update;code:302;type:date;ro;fmt:L'' @
      '';len:20;;Access;code:303;type:date;ro;fmt:L;len:20;;Owner;code:304;fmt'' @
      '':R;len:32;;Description;code:306;type:text;len:128;;Options;code:309;ty'' @
      ''pe:line;len:32;val:unlocked/locked;;View;code:311;fmt:C;type:wlist;wor'' @
      ''ds:2;len:64;;''),
   (''change'',
      ''Change;code:201;rq;ro;fmt:L;seq:1;len:10;;Date;code:202;type:date;ro;f'' @
      ''mt:R;seq:3;len:20;;Client;code:203;ro;fmt:L;seq:2;len:32;;User;code:20'' @
      ''4;ro;fmt:L;seq:4;len:32;;Status;code:205;ro;fmt:R;seq:5;len:10;;Type;c'' @
      ''ode:211;seq:6;type:select;fmt:L;len:10;val:public/restricted;;Imported'' @
      ''By;code:212;type:line;ro;fmt:L;len:32;;Identity;code:213;type:line;;De'' @
      ''scription;code:206;type:text;rq;seq:7;;JobStatus;code:207;fmt:I;type:s'' @
      ''elect;seq:9;;Jobs;code:208;type:wlist;seq:8;len:32;;Stream;code:214;ty'' @
      ''pe:line;len:64;;Files;code:210;type:llist;len:64;;''),
   (''client'',
      ''Client;code:301;rq;ro;seq:1;len:32;;Update;code:302;type:date;ro;seq:2'' @
      '';fmt:L;len:20;;Access;code:303;type:date;ro;seq:4;fmt:L;len:20;;Owner;'' @
      ''code:304;seq:3;fmt:R;len:32;;Host;code:305;seq:5;fmt:R;len:32;;Descrip'' @
      ''tion;code:306;type:text;len:128;;Root;code:307;rq;type:line;len:64;;Al'' @
      ''tRoots;code:308;type:llist;len:64;;Options;code:309;type:line;len:64;v'' @
      ''al:noallwrite/allwrite,noclobber/clobber,nocompress/compress,unlocked/'' @
      ''locked,nomodtime/modtime,normdir/rmdir,noaltsync/altsync;;SubmitOption'' @
      ''s;code:313;type:select;fmt:L;len:25;val:submitunchanged/submitunchange'' @
      ''d+reopen/revertunchanged/revertunchanged+reopen/leaveunchanged/leaveun'' @
      ''changed+reopen;;LineEnd;code:310;type:select;fmt:L;len:12;val:local/un'' @
      ''ix/mac/win/share;;Stream;code:314;type:line;len:64;;StreamAtChange;cod'' @
      ''e:316;type:line;len:64;;ServerID;code:315;type:line;ro;len:64;;Type;co'' @
      ''de:318;type:select;len:10;val:writeable/readonly/graph/partitioned/par'' @
      ''titioned-jnl;;Backup;code:319;type:select;len:10;val:enable/disable;;V'' @
      ''iew;code:311;fmt:C;type:wlist;words:2;len:64;;ChangeView;code:317;type'' @
      '':llist;len:64;;''),
   (''depot'',
      ''Depot;code:251;rq;ro;len:32;;Owner;code:252;len:32;;Date;code:253;type'' @
      '':date;ro;len:20;;Description;code:254;type:text;len:128;;Type;code:255'' @
      '';rq;len:10;;Address;code:256;len:64;;Suffix;code:258;len:64;;StreamDep'' @
      ''th;code:260;len:64;;Map;code:257;rq;len:64;;SpecMap;code:259;type:wlis'' @
      ''t;len:64;;''),
   (''group'',
      ''Group;code:401;rq;ro;len:32;;Description;code:NNN;type:text;fmt:L:len:'' @
      ''128;;MaxResults;code:402;type:word;len:12;;MaxScanRows;code:403;type:w'' @
      ''ord;len:12;;MaxLockTime;code:407;type:word;len:12;;MaxOpenFiles;code:4'' @
      ''13;type:word;len:12;;MaxMemory;code:NNN;type:word;len:12;;Timeout;code'' @
      '':406;type:word;len:12;;IdleTimeout;code:NNN;type:word;len:12;;Password'' @
      ''Timeout;code:409;type:word;len:12;;LdapConfig;code:410;type:line;len:1'' @
      ''28;;LdapSearchQuery;code:411;type:line;len:128;;LdapUserAttribute;code'' @
      '':412;type:line;len:128;;LdapUserDNAttribute;code:414;type:line;len:128'' @
      '';;Subgroups;code:404;type:wlist;len:32;opt:default;;Owners;code:408;ty'' @
      ''pe:wlist;len:32;opt:default;;Users;code:405;type:wlist;len:32;opt:defa'' @
      ''ult;;''),
   (''hotfiles'',
      ''HotFiles;code:1051;fmt:C;type:wlist;words:1;maxwords:3;len:64;opt:defa'' @
      ''ult;z;;''),
   (''job'',
      ''Job;code:101;rq;len:32;;Status;code:102;type:select;rq;len:10;pre:open'' @
      '';val:open/suspended/closed;;User;code:103;rq;len:32;pre:$user;;Date;co'' @
      ''de:104;type:date;ro;len:20;pre:$now;;Description;code:105;type:text;rq'' @
      '';pre:$blank;;''),
   (''label'',
      ''Label;code:301;rq;ro;fmt:L;len:32;;Update;code:302;type:date;ro;fmt:L;'' @
      ''len:20;;Access;code:303;type:date;ro;fmt:L;len:20;;Owner;code:304;fmt:'' @
      ''R;len:32;;Description;code:306;type:text;len:128;;Options;code:309;typ'' @
      ''e:line;len:64;val:unlocked/locked,noautoreload/autoreload;;Revision;co'' @
      ''de:312;type:word;words:1;len:64;;ServerID;code:315;type:line;ro;len:64'' @
      '';;View;code:311;fmt:C;type:wlist;len:64;;''),
   (''ldap'',
      ''Name;code:801;rq;len:32;;Host;code:802;rq;type:word;words:1;len:128;;P'' @
      ''ort;code:803;rq;type:word;words:1;len:5;;Encryption;code:804;rq;len:10'' @
      '';val:none/ssl/tls;;BindMethod;code:805;rq;len:10;val:simple/search/sas'' @
      ''l;;Options;code:816;type:line;len:64;val:nodowncase/downcase,nogetattr'' @
      ''s/getattrs,norealminusername/realminusername;;SimplePattern;code:806;t'' @
      ''ype:line;len:128;;SearchBaseDN;code:807;type:line;len:128;;SearchFilte'' @
      ''r;code:808;type:line;len:128;;SearchScope;code:809;len:10;val:baseonly'' @
      ''/children/subtree;;SearchBindDN;code:810;type:line;len:128;;SearchPass'' @
      ''wd;code:811;type:line;len:128;;SaslRealm;code:812;type:word;words:1;le'' @
      ''n:128;;GroupBaseDN;code:813;type:line;len:128;;GroupSearchFilter;code:'' @
      ''814;type:line;len:128;;GroupSearchScope;code:815;len:10;val:baseonly/c'' @
      ''hildren/subtree;;AttributeUid;code:817;type:word;len:128;;AttributeNam'' @
      ''e;code:818;type:line;len:128;;AttributeEmail;code:819;type:word;len:12'' @
      ''8;;''),
   (''license'',
      ''License;code:451;len:32;;License-Expires;code:452;len:10;;Support-Expi'' @
      ''res;code:453;len:10;;Customer;code:454;type:line;len:128;;Application;'' @
      ''code:455;len:32;;IPaddress;code:456;len:24;;IPservice;code:461;type:wl'' @
      ''ist;len:24;;Platform;code:457;len:32;;Clients;code:458;len:8;;Users;co'' @
      ''de:459;len:8;;Files;code:460;len:8;;Repos;code:462;len:8;;ExtraCapabil'' @
      ''ities;code:463;type:llist;len:512;;''),
   (''protect'',
      ''SubPath;code:502;ro;len:64;;Update;code:503;type:date;ro;fmt:L;len:20;'' @
      '';Protections;code:501;fmt:C;type:wlist;words:5;opt:default;z;len:64;;''),
   (''remote'',
      ''RemoteID;code:851;rq;ro;fmt:L;len:32;;Address;code:852;rq;type:line;le'' @
      ''n:32;;Owner;code:853;fmt:R;len:32;;RemoteUser;code:861;fmt:R;len:32;;O'' @
      ''ptions;code:854;type:line;len:32;val:unlocked/locked,nocompress/compre'' @
      ''ss,copyrcs/nocopyrcs;;Update;code:855;type:date;ro;fmt:L;len:20;;Acces'' @
      ''s;code:856;type:date;ro;fmt:L;len:20;;Description;code:857;type:text;l'' @
      ''en:128;;LastFetch;code:858;fmt:L;len:10;;LastPush;code:859;fmt:L;len:1'' @
      ''0;;DepotMap;code:860;type:wlist;words:2;len:64;;ArchiveLimits;code:862'' @
      '';type:wlist;words:2;len:64;;''),
   (''repo'',
      ''Repo;code:1001;rq;ro;fmt:L;len:128;;Owner;code:1002;fmt:R;len:32;;Crea'' @
      ''ted;code:1003;type:date;ro;fmt:L;len:20;;Pushed;code:1004;type:date;ro'' @
      '';fmt:R;len:20;;ForkedFrom;code:1005;ro;fmt:L;len:128;;Description;code'' @
      '':1006;type:text;len:128;;DefaultBranch;code:1007;fmt:L;len:32;;Mirrore'' @
      ''dFrom;code:1008;fmt:R;len:32;;Options;code:1009;type:select;len:10;val'' @
      '':lfs/nolfs;;GconnMirrorServerId;code:1010;fmt:L;len:32;;GconnMirrorSec'' @
      ''retToken;code:NNN;len:36;;GconnMirrorStatus;code:NNN;len:8;;GconnMirro'' @
      ''rExcludedBranches;code:NNN;len:256;;GconnMirrorHideFetchUrl;code:NNN;l'' @
      ''en:5;;''),
   (''server'',
      ''ServerID;code:751;rq;ro;len:32;;Type;code:752;rq;len:32;;Name;code:753'' @
      '';type:line;len:32;;Address;code:754;type:line;len:32;;ExternalAddress;'' @
      ''code:755;type:line;len:32;;Services;code:756;rq;len:128;;Options;code:'' @
      ''764;type:line;len:32;val:nomandatory/mandatory;;ReplicatingFrom;code:7'' @
      ''65;type:line;len:32;;Description;code:757;type:text;len:128;;User;code'' @
      '':761;type:line;len:64;;AllowedAddresses;code:763;type:wlist;len:64;;Up'' @
      ''dateCachedRepos;code:766;type:wlist;len:64;;ClientDataFilter;code:758;'' @
      ''type:wlist;len:64;;RevisionDataFilter;code:759;type:wlist;len:64;;Arch'' @
      ''iveDataFilter;code:760;type:wlist;len:64;;DistributedConfig;code:762;t'' @
      ''ype:text;len:128;;''),
   (''spec'',
      ''Fields;code:351;type:wlist;words:5;rq;;Words;code:352;type:wlist;words'' @
      '':2;;Formats;code:353;type:wlist;words:3;;Values;code:354;type:wlist;wo'' @
      ''rds:2;;Presets;code:355;type:wlist;words:2;;Openable;code:362;type:wli'' @
      ''st;words:2;;Maxwords;code:361;type:wlist;words:2;;Comments;code:356;ty'' @
      ''pe:text;;''),
   (''stream'',
      ''Stream;code:701;rq;ro;len:64;;Update;code:705;type:date;ro;fmt:L;len:2'' @
      ''0;;Access;code:706;type:date;ro;fmt:L;len:20;;Owner;code:704;len:32;op'' @
      ''en:isolate;;Name;code:703;rq;type:line;len:32;open:isolate;;Parent;cod'' @
      ''e:702;rq;len:64;open:isolate;;Type;code:708;rq;type:select;len:32;open'' @
      '':isolate;val:mainline/virtual/development/release/task/sparsedev/spars'' @
      ''erel;;Description;code:709;type:text;len:128;open:isolate;;Options;cod'' @
      ''e:707;type:line;len:64;val:allsubmit/ownersubmit,unlocked/locked,topar'' @
      ''ent/notoparent,fromparent/nofromparent,mergedown/mergeany;open:isolate'' @
      '';;ParentView;code:NNN;rq;open:isolate;pre:inherit;val:noinherit/inheri'' @
      ''t;;Components;code:NNN;type:wlist;words:3;maxwords:4;len:64;open:propa'' @
      ''gate;fmt:C;;Paths;code:710;rq;type:wlist;words:2;maxwords:3;len:64;ope'' @
      ''n:propagate;fmt:C;;Remapped;code:711;type:wlist;words:2;len:64;open:pr'' @
      ''opagate;fmt:C;;Ignored;code:712;type:wlist;words:1;len:64;open:propaga'' @
      ''te;fmt:C;;View;code:713;type:wlist;words:2;len:64;;ChangeView;code:714'' @
      '';type:llist;ro;len:64;;''),
   (''triggers'',
      ''Triggers;code:551;type:wlist;words:4;len:64;opt:default;z;;''),
   (''typemap'',
      ''TypeMap;code:601;fmt:C;type:wlist;words:2;len:64;opt:default;z;;''),
   (''user'',
      ''User;code:651;rq;ro;seq:1;len:32;;Type;code:659;ro;fmt:R;len:10;;Email'' @
      '';code:652;fmt:R;rq;seq:3;len:32;;Update;code:653;fmt:L;type:date;ro;se'' @
      ''q:2;len:20;;Access;code:654;fmt:L;type:date;ro;len:20;;FullName;code:6'' @
      ''55;fmt:R;type:line;rq;len:32;;JobView;code:656;type:line;len:64;;Passw'' @
      ''ord;code:657;len:32;;AuthMethod;code:662;fmt:L;len:10;val:perforce/per'' @
      ''force+2fa/ldap/ldap+2fa;;Reviews;code:658;type:wlist;len:64;;'')]"

text \<open>The manager's state is its cache \<^verbatim>\<open>specs\<close>, from spec type to definition.\<close>

definition AddSpecDef :: "string \<Rightarrow> string \<Rightarrow> StrDict \<Rightarrow> StrDict" where
  "AddSpecDef type specDef specs =
     (let specs1 = (if GetVar specs type \<noteq> None then RemoveVar type specs else specs)
      in SetVar type specDef specs1)"

definition P4GoSpecMgr_Reset :: StrDict where
  "P4GoSpecMgr_Reset = fold (\<lambda>sp specs. AddSpecDef (fst sp) (snd sp) specs) speclist []"

definition HaveSpecDef :: "StrDict \<Rightarrow> string \<Rightarrow> bool" where
  "HaveSpecDef specs type = (GetVar specs type \<noteq> None)"

text \<open>
  \<^verbatim>\<open>tag << et << i\<close> appends the decimal digits of \<open>i\<close>. A number has no
  more digits than its value plus one, which bounds the recursion.
\<close>

fun digit_chars :: "nat \<Rightarrow> nat \<Rightarrow> string" where
  "digit_chars 0 i = []"
| "digit_chars (Suc fuel) i =
     (if i < 10 then [''0123456789'' ! i]
      else digit_chars fuel (i div 10) @ [''0123456789'' ! (i mod 10)])"

definition decimal :: "nat \<Rightarrow> string" where
  "decimal i = digit_chars (Suc i) i"

text \<open>
  The loop of \<^verbatim>\<open>StrDictToSpec\<close> over \<^verbatim>\<open>extraTag0\<close>, \<^verbatim>\<open>extraTag1\<close>, ...: it stops
  at the first index the record does not have and skips a tag whose target
  variable has no value. The record is finite, so the loop ends within
  \<^verbatim>\<open>length dict\<close> + 1 steps; \<open>n\<close> counts the steps that are left.
\<close>

fun extraTags :: "nat \<Rightarrow> nat \<Rightarrow> StrDict \<Rightarrow> StrDict \<Rightarrow> StrDict" where
  "extraTags 0 i dict ex = ex"
| "extraTags (Suc n) i dict ex =
     (case GetVar dict (''extraTag'' @ decimal i) of
        None \<Rightarrow> ex
      | Some var \<Rightarrow>
          (case GetVar dict var of
             None \<Rightarrow> extraTags n (Suc i) dict ex
           | Some val \<Rightarrow> extraTags n (Suc i) dict (SetVar var val ex)))"

text \<open>
  \<^verbatim>\<open>StrDictToSpec\<close>: the record is rendered as a form and the form is parsed
  again; the result is the parsed table, with the extra tags stored in \<^verbatim>\<open>extras\<close>.
  \<open>None\<close> is the null pointer it returns on an error.
\<close>

definition StrDictToSpec :: "SpecApi \<Rightarrow> StrDict \<Rightarrow> string \<Rightarrow> P4GoSpecData option" where
  "StrDictToSpec api dict specDef =
     (let e = Spec_new api specDef MakeError
      in if Error_Test e then None
         else
           (let form = Spec_Format api specDef dict;
                (parsed, e1) = Spec_ParseNoValid api specDef form e
            in if Error_Test e1 then None
               else Some \<lparr>Dict = parsed,
                          extras = extraTags (Suc (length dict)) 0 dict [],
                          Dict_freed = False\<rparr>))"

datatype fault = NullDereference | IndexOutOfRange | DoubleFree

text \<open>
  \<^verbatim>\<open>StringToSpec\<close>: the parsed table (or the null pointer) and the error object.
  The cached definition is dereferenced unchecked, so the caller asks
  \<^verbatim>\<open>HaveSpecDef\<close> first.
\<close>

definition StringToSpec ::
  "SpecApi \<Rightarrow> StrDict \<Rightarrow> string \<Rightarrow> string \<Rightarrow> Error \<Rightarrow> fault + (P4GoSpecData option \<times> Error)" where
  "StringToSpec api specs type form e =
     (case GetVar specs type of
        None \<Rightarrow> Inl NullDereference
      | Some specDef \<Rightarrow>
          (let e1 = Spec_new api specDef e;
               (parsed, e2) =
                 (if \<not> Error_Test e1 then Spec_ParseNoValid api specDef form e1 else ([], e1))
           in if Error_Test e2 then Inr (None, e2)
              else Inr (Some (new_P4GoSpecData parsed), e2)))"

text \<open>\<^verbatim>\<open>SpecToString\<close>: the buffer \<^verbatim>\<open>b\<close> as it is left, and the error object.\<close>

definition SpecToString ::
  "SpecApi \<Rightarrow> StrDict \<Rightarrow> string \<Rightarrow> P4GoSpecData \<Rightarrow> string \<Rightarrow> Error \<Rightarrow> string \<times> Error" where
  "SpecToString api specs type spec b e =
     (case GetVar specs type of
        None \<Rightarrow>
          (b, Error_Set E_FAILED
                ''No specdef available. Cannot convert hash to a Perforce form'' e)
      | Some specDef \<Rightarrow>
          (let e1 = Spec_new api specDef e
           in if Error_Test e1 then (b, e1)
              else (b @ Spec_Format api specDef (Dict spec), e1)))"

text \<open>
  \<^verbatim>\<open>SpecDataGetKeyPair\<close> (p4go.cpp): the i-th pair of the table's dictionary.
\<close>

definition SpecDataGetKeyPair :: "P4GoSpecData \<Rightarrow> nat \<Rightarrow> (string \<times> string) option" where
  "SpecDataGetKeyPair spec i = GetVarI (Dict spec) i"

subsection \<open>The result collection (p4goresult.h, p4goresult.cpp)\<close>

datatype P4GoResultType = STRING | BINARY | TRACK | DICT | ERROR | SPEC

text \<open>
  \<^verbatim>\<open>struct P4GoResult\<close>: the tag, the flag \<^verbatim>\<open>taken\<close> and one pointer per
  payload. \<^verbatim>\<open>new P4GoResult\<close> initialises nothing: a field that was not assigned
  is \<open>None\<close>.
\<close>

record P4GoResult =
  rtype :: P4GoResultType
  taken :: "int option"
  str :: "string option"
  dict :: "StrBufDict option"
  err :: "Error option"
  spec :: "P4GoSpecData option"

definition new_P4GoResult :: "P4GoResultType \<Rightarrow> P4GoResult" where
  "new_P4GoResult t = \<lparr>rtype = t, taken = None, str = None, dict = None, err = None, spec = None\<rparr>"

text \<open>
  \<^verbatim>\<open>class P4GoResults : public VVarArray\<close>: the array of results, in the order
  they were put, and a count per kind.
\<close>

record P4GoResults =
  items :: "P4GoResult list"
  infoCount :: int
  warnCount :: int
  errorCount :: int
  trackCount :: int
  dictCount :: int
  specCount :: int
  stringCount :: int

text \<open>
  \<^verbatim>\<open>Destroy( r )\<close>, by what the result leaves in memory. The struct is deleted
  when \<^verbatim>\<open>taken\<close> is 0 and marked (\<^verbatim>\<open>taken = 2\<close>) otherwise; when \<^verbatim>\<open>taken\<close> was
  never assigned, which of the two happens is not determined.
  \<^verbatim>\<open>struct P4GoResult\<close> has no destructor, so \<^verbatim>\<open>delete res\<close> frees none of the
  objects its pointers name: the payload stays allocated.
\<close>

datatype heap_object =
    StrBufObj string
  | StrDictObj StrBufDict
  | ErrorObj Error
  | SpecDataObj P4GoSpecData

definition payload :: "P4GoResult \<Rightarrow> heap_object list" where
  "payload res =
     (case str res of Some t \<Rightarrow> [StrBufObj t] | None \<Rightarrow> []) @
     (case dict res of Some d \<Rightarrow> [StrDictObj d] | None \<Rightarrow> []) @
     (case err res of Some e \<Rightarrow> [ErrorObj e] | None \<Rightarrow> []) @
     (case spec res of Some s \<Rightarrow> [SpecDataObj s] | None \<Rightarrow> [])"

datatype struct_fate = Deleted | Marked | Undetermined

record remains =
  of_struct :: struct_fate
  of_payload :: "heap_object list"

definition Destroy :: "P4GoResult \<Rightarrow> remains" where
  "Destroy res =
     \<lparr>of_struct = (case taken res of
                     None \<Rightarrow> Undetermined
                   | Some t \<Rightarrow> if t = 0 then Deleted else Marked),
      of_payload = payload res\<rparr>"

text \<open>
  \<^verbatim>\<open>Reset\<close> destroys and removes every result, last first, and zeroes the
  counts. It gives the collection afterwards and, in the order of the calls of
  \<^verbatim>\<open>Destroy\<close>, what the results leave in memory.
\<close>

fun Reset_loop ::
  "nat \<Rightarrow> P4GoResult list \<Rightarrow> remains list \<Rightarrow> P4GoResult list \<times> remains list" where
  "Reset_loop 0 xs gone = (xs, gone)"
| "Reset_loop (Suc i) xs gone = Reset_loop i (take i xs) (gone @ [Destroy (xs ! i)])"

definition P4GoResults_Reset :: "P4GoResults \<Rightarrow> P4GoResults \<times> remains list" where
  "P4GoResults_Reset r =
     (let (xs, gone) = Reset_loop (length (items r)) (items r) []
      in (r\<lparr>items := xs,
            infoCount := 0, warnCount := 0, errorCount := 0, trackCount := 0,
            dictCount := 0, specCount := 0, stringCount := 0\<rparr>, gone))"

text \<open>
  \<^verbatim>\<open>AddOutput( Error* e )\<close>: a message of empty severity is not stored. Unlike
  the others, it does not assign \<^verbatim>\<open>taken\<close>.
\<close>

definition AddOutput_err :: "Error \<Rightarrow> P4GoResults \<Rightarrow> P4GoResults" where
  "AddOutput_err e r =
     (if severity e = E_EMPTY then r
      else
        (let r1 = r\<lparr>items := items r @ [(new_P4GoResult ERROR)\<lparr>err := Some e\<rparr>]\<rparr>
         in if severity e = E_INFO then r1\<lparr>infoCount := infoCount r1 + 1\<rparr>
            else if severity e = E_WARN then r1\<lparr>warnCount := warnCount r1 + 1\<rparr>
            else r1\<lparr>errorCount := errorCount r1 + 1\<rparr>))"

text \<open>\<^verbatim>\<open>AddOutput( StrPtr o, bool binary )\<close>.\<close>

definition AddOutput_str :: "string \<Rightarrow> bool \<Rightarrow> P4GoResults \<Rightarrow> P4GoResults" where
  "AddOutput_str o' binary r =
     r\<lparr>items := items r @
         [(new_P4GoResult (if binary then BINARY else STRING))\<lparr>taken := Some 0, str := Some o'\<rparr>],
       stringCount := stringCount r + 1\<rparr>"

text \<open>\<^verbatim>\<open>AddOutput( StrDict* d )\<close>.\<close>

definition AddOutput_dict :: "StrBufDict \<Rightarrow> P4GoResults \<Rightarrow> P4GoResults" where
  "AddOutput_dict d r =
     r\<lparr>items := items r @ [(new_P4GoResult DICT)\<lparr>taken := Some 0, dict := Some d\<rparr>],
       dictCount := dictCount r + 1\<rparr>"

text \<open>
  \<^verbatim>\<open>AddOutput( P4GoSpecData* s )\<close>; the pointer is stored as it is, also when it
  is null.
\<close>

definition AddOutput_spec :: "P4GoSpecData option \<Rightarrow> P4GoResults \<Rightarrow> P4GoResults" where
  "AddOutput_spec s r =
     r\<lparr>items := items r @ [(new_P4GoResult SPEC)\<lparr>taken := Some 0, spec := s\<rparr>],
       specCount := specCount r + 1\<rparr>"

text \<open>\<^verbatim>\<open>AddTrack( StrPtr t )\<close>.\<close>

definition AddTrack :: "string \<Rightarrow> P4GoResults \<Rightarrow> P4GoResults" where
  "AddTrack t r =
     r\<lparr>items := items r @ [(new_P4GoResult TRACK)\<lparr>taken := Some 0, str := Some t\<rparr>],
       trackCount := trackCount r + 1\<rparr>"

text \<open>
  \<^verbatim>\<open>DeleteTrack\<close>: from the last result down, it returns at the first result that
  is not a track line and destroys and removes the ones before that. \<open>Suc i\<close>
  results are left to look at; the one looked at is \<open>xs ! i\<close>, the last. The
  counts are not touched. Like \<^verbatim>\<open>Reset\<close> it gives the collection and what the
  removed results leave in memory.
\<close>

fun DeleteTrack_loop ::
  "nat \<Rightarrow> P4GoResult list \<Rightarrow> remains list \<Rightarrow> P4GoResult list \<times> remains list" where
  "DeleteTrack_loop 0 xs gone = (xs, gone)"
| "DeleteTrack_loop (Suc i) xs gone =
     (if rtype (xs ! i) \<noteq> TRACK then (xs, gone)
      else DeleteTrack_loop i (take i xs) (gone @ [Destroy (xs ! i)]))"

definition DeleteTrack :: "P4GoResults \<Rightarrow> P4GoResults \<times> remains list" where
  "DeleteTrack r =
     (let (xs, gone) = DeleteTrack_loop (length (items r)) (items r) []
      in (r\<lparr>items := xs\<rparr>, gone))"

subsection \<open>Merge data (p4gomergedata.cpp)\<close>

text \<open>
  What the API's \<^verbatim>\<open>ClientMerge\<close> (a content resolve) answers: the status of
  \<^verbatim>\<open>AutoResolve( CMF_FORCE )\<close>, the status of its own \<^verbatim>\<open>Resolve( e )\<close>, and
  its four files, each a null pointer or a file with a name.
\<close>

record ClientMerge =
  cm_AutoResolve :: int
  cm_Resolve :: int
  cm_YourFile :: "string option"
  cm_TheirFile :: "string option"
  cm_BaseFile :: "string option"
  cm_ResultFile :: "string option"

text \<open>The same for \<^verbatim>\<open>ClientResolveA\<close> (an action resolve) and its four messages.\<close>

record ClientResolveA =
  cra_AutoResolve :: int
  cra_Resolve :: int
  cra_MergeAction :: Error
  cra_YoursAction :: Error
  cra_TheirAction :: Error
  cra_Type :: Error

record P4GoMergeData =
  merger :: "ClientMerge option"
  actionmerger :: "ClientResolveA option"
  hint :: int
  yours :: string
  theirs :: string
  base :: string

text \<open>
  The two constructors. The first reads the names from the variables of the
  request, \<^verbatim>\<open>ui->varList\<close>; a \<^verbatim>\<open>StrBuf\<close> that is not assigned is empty.
\<close>

definition P4GoMergeData_content :: "StrDict \<Rightarrow> ClientMerge \<Rightarrow> P4GoMergeData" where
  "P4GoMergeData_content varList m =
     \<lparr>merger = Some m, actionmerger = None, hint = cm_AutoResolve m,
      yours = (case GetVar varList ''yourName'' of Some t \<Rightarrow> t | None \<Rightarrow> []),
      theirs = (case GetVar varList ''theirName'' of Some t \<Rightarrow> t | None \<Rightarrow> []),
      base = (case GetVar varList ''baseName'' of Some t \<Rightarrow> t | None \<Rightarrow> [])\<rparr>"

definition P4GoMergeData_action :: "ClientResolveA \<Rightarrow> P4GoMergeData" where
  "P4GoMergeData_action m =
     \<lparr>merger = None, actionmerger = Some m, hint = cra_AutoResolve m,
      yours = [], theirs = [], base = []\<rparr>"

text \<open>The accessors; \<open>None\<close> is the null pointer.\<close>

definition GetYourName :: "P4GoMergeData \<Rightarrow> string option" where
  "GetYourName md = (if merger md \<noteq> None \<and> length (yours md) \<noteq> 0 then Some (yours md) else None)"

definition GetTheirName :: "P4GoMergeData \<Rightarrow> string option" where
  "GetTheirName md = (if merger md \<noteq> None \<and> length (theirs md) \<noteq> 0 then Some (theirs md) else None)"

definition GetBaseName :: "P4GoMergeData \<Rightarrow> string option" where
  "GetBaseName md = (if merger md \<noteq> None \<and> length (base md) \<noteq> 0 then Some (base md) else None)"

definition GetYourPath :: "P4GoMergeData \<Rightarrow> string option" where
  "GetYourPath md = (case merger md of Some m \<Rightarrow> cm_YourFile m | None \<Rightarrow> None)"

definition GetTheirPath :: "P4GoMergeData \<Rightarrow> string option" where
  "GetTheirPath md = (case merger md of Some m \<Rightarrow> cm_TheirFile m | None \<Rightarrow> None)"

definition GetBasePath :: "P4GoMergeData \<Rightarrow> string option" where
  "GetBasePath md = (case merger md of Some m \<Rightarrow> cm_BaseFile m | None \<Rightarrow> None)"

definition GetResultPath :: "P4GoMergeData \<Rightarrow> string option" where
  "GetResultPath md = (case merger md of Some m \<Rightarrow> cm_ResultFile m | None \<Rightarrow> None)"

definition GetMergeHint :: "P4GoMergeData \<Rightarrow> int" where
  "GetMergeHint md = hint md"

definition GetActionResolveStatus :: "P4GoMergeData \<Rightarrow> int" where
  "GetActionResolveStatus md = (if actionmerger md \<noteq> None then 1 else 0)"

definition GetContentResolveStatus :: "P4GoMergeData \<Rightarrow> int" where
  "GetContentResolveStatus md = (if merger md \<noteq> None then 1 else 0)"

definition GetMergeAction :: "P4GoMergeData \<Rightarrow> Error option" where
  "GetMergeAction md = (case actionmerger md of Some a \<Rightarrow> Some (cra_MergeAction a) | None \<Rightarrow> None)"

definition GetYoursAction :: "P4GoMergeData \<Rightarrow> Error option" where
  "GetYoursAction md = (case actionmerger md of Some a \<Rightarrow> Some (cra_YoursAction a) | None \<Rightarrow> None)"

definition GetTheirAction :: "P4GoMergeData \<Rightarrow> Error option" where
  "GetTheirAction md = (case actionmerger md of Some a \<Rightarrow> Some (cra_TheirAction a) | None \<Rightarrow> None)"

definition GetType :: "P4GoMergeData \<Rightarrow> Error option" where
  "GetType md = (case actionmerger md of Some a \<Rightarrow> Some (cra_Type a) | None \<Rightarrow> None)"

text \<open>
  The Go accessors of \<^verbatim>\<open>P4MergeData\<close> (p4.go) for names and paths:
  \<^verbatim>\<open>C.GoString\<close> of a null pointer is the empty string.
\<close>

definition GoString :: "string option \<Rightarrow> string" where
  "GoString p = (case p of None \<Rightarrow> [] | Some t \<Rightarrow> t)"

definition YourName :: "P4GoMergeData \<Rightarrow> string" where
  "YourName md = GoString (GetYourName md)"

definition TheirName :: "P4GoMergeData \<Rightarrow> string" where
  "TheirName md = GoString (GetTheirName md)"

definition BaseName :: "P4GoMergeData \<Rightarrow> string" where
  "BaseName md = GoString (GetBaseName md)"

definition YourPath :: "P4GoMergeData \<Rightarrow> string" where
  "YourPath md = GoString (GetYourPath md)"

definition TheirPath :: "P4GoMergeData \<Rightarrow> string" where
  "TheirPath md = GoString (GetTheirPath md)"

definition BasePath :: "P4GoMergeData \<Rightarrow> string" where
  "BasePath md = GoString (GetBasePath md)"

definition ResultPath :: "P4GoMergeData \<Rightarrow> string" where
  "ResultPath md = GoString (GetResultPath md)"

definition IsActionResolve :: "P4GoMergeData \<Rightarrow> bool" where
  "IsActionResolve md = (GetActionResolveStatus md \<noteq> 0)"

definition IsContentResolve :: "P4GoMergeData \<Rightarrow> bool" where
  "IsContentResolve md = (GetContentResolveStatus md \<noteq> 0)"

definition MergeHint :: "P4GoMergeData \<Rightarrow> int" where
  "MergeHint md = GetMergeHint md"

text \<open>
  The Go accessors for the four action messages, at their first call on a merge
  case. Each passes the pointer it gets from the C++ accessor to
  \<^verbatim>\<open>GetErrorSeverity\<close>, which is \<^verbatim>\<open>e->GetSeverity()\<close>, without looking at it.
\<close>

definition ActionType :: "P4GoMergeData \<Rightarrow> fault + P4Message" where
  "ActionType md =
     (case GetType md of None \<Rightarrow> Inl NullDereference | Some e \<Rightarrow> Inr (to_P4Message e))"

definition MergeAction :: "P4GoMergeData \<Rightarrow> fault + P4Message" where
  "MergeAction md =
     (case GetMergeAction md of None \<Rightarrow> Inl NullDereference | Some e \<Rightarrow> Inr (to_P4Message e))"

definition TheirAction :: "P4GoMergeData \<Rightarrow> fault + P4Message" where
  "TheirAction md =
     (case GetTheirAction md of None \<Rightarrow> Inl NullDereference | Some e \<Rightarrow> Inr (to_P4Message e))"

definition YourAction :: "P4GoMergeData \<Rightarrow> fault + P4Message" where
  "YourAction md =
     (case GetYoursAction md of None \<Rightarrow> Inl NullDereference | Some e \<Rightarrow> Inr (to_P4Message e))"

subsection \<open>The client user object (p4goclientuser.h, p4goclientuser.cpp)\<close>

text \<open>
  A handler is the caller's code: a value of the Go interface
  \<^verbatim>\<open>P4OutputHandler\<close> or \<^verbatim>\<open>P4ResolveHandler\<close>. It runs on the caller's own
  state, of type \<open>'w\<close>, and returns a Go \<^verbatim>\<open>int\<close>: each method takes that state
  and the data and gives the answer and the state it leaves. The state of a
  session carries the caller's state in \<open>caller\<close>, so that what a method did can
  be read afterwards.
\<close>

record 'w P4OutputHandler =
  HandleBinary :: "'w \<Rightarrow> string \<Rightarrow> int \<times> 'w"
  HandleMessage :: "'w \<Rightarrow> P4Message \<Rightarrow> int \<times> 'w"
  HandleStat :: "'w \<Rightarrow> Dictionary \<Rightarrow> int \<times> 'w"
  HandleText :: "'w \<Rightarrow> string \<Rightarrow> int \<times> 'w"
  HandleTrack :: "'w \<Rightarrow> string \<Rightarrow> int \<times> 'w"
  HandleSpec :: "'w \<Rightarrow> Dictionary \<Rightarrow> int \<times> 'w"

type_synonym 'w P4ResolveHandler = "'w \<Rightarrow> P4GoMergeData \<Rightarrow> int \<times> 'w"

text \<open>
  The C++ objects \<^verbatim>\<open>P4GoHandler\<close> and \<^verbatim>\<open>P4GoResolveHandler\<close> hold function
  pointers, and \<^verbatim>\<open>NewHandler\<close> and \<^verbatim>\<open>NewResolveHandler\<close> always fill in the same
  ones: the functions below, exported by p4.go, each of which finds the Go
  handler registered for the object, calls its method and converts the answer
  with \<^verbatim>\<open>C.int\<close>. \<open>h\<close> is the handler found and \<open>w\<close> the caller's state.

  \<^verbatim>\<open>goCallHandleStatFunction\<close> reads the pairs through two pointers \<^verbatim>\<open>k\<close> and
  \<^verbatim>\<open>v\<close> and frees both after the loop and before it calls the handler: for a
  record that is not empty they point into the record, at its last variable
  and value. It gives the answer, the caller's state and the record as it
  leaves it. (\<^verbatim>\<open>OutputStat\<close> hands it a record it has just made, so that storage
  is there to be freed.)
\<close>

definition goCallHandleBinaryFunction ::
  "'w P4OutputHandler \<Rightarrow> 'w \<Rightarrow> string \<Rightarrow> int \<times> 'w" where
  "goCallHandleBinaryFunction h w t = (let (r, w1) = HandleBinary h w t in (C_int r, w1))"

definition goCallHandleMessageFunction ::
  "'w P4OutputHandler \<Rightarrow> 'w \<Rightarrow> Error \<Rightarrow> int \<times> 'w" where
  "goCallHandleMessageFunction h w e =
     (let (r, w1) = HandleMessage h w (to_P4Message e) in (C_int r, w1))"

definition goCallHandleStatFunction ::
  "'w P4OutputHandler \<Rightarrow> 'w \<Rightarrow> StrBufDict \<Rightarrow> (int \<times> 'w) \<times> StrBufDict" where
  "goCallHandleStatFunction h w t =
     (let d = to_Dictionary (entries t) Map.empty;
          t1 = t\<lparr>last_freed := (last_freed t \<or> entries t \<noteq> [])\<rparr>;
          (r, w1) = HandleStat h w d
      in ((C_int r, w1), t1))"

definition goCallHandleTextFunction ::
  "'w P4OutputHandler \<Rightarrow> 'w \<Rightarrow> string \<Rightarrow> int \<times> 'w" where
  "goCallHandleTextFunction h w t = (let (r, w1) = HandleText h w t in (C_int r, w1))"

definition goCallResolveFunction ::
  "'w P4ResolveHandler \<Rightarrow> 'w \<Rightarrow> P4GoMergeData \<Rightarrow> int \<times> 'w" where
  "goCallResolveFunction h w t = (let (r, w1) = h w t in (C_int r, w1))"

text \<open>
  A progress object and an SSO handler are only stored here; they are named by a
  handle.
\<close>

type_synonym handle = nat

record 'w P4GoClientUser =
  cmd :: string
  specs :: StrDict
  results :: P4GoResults
  input :: "string list"
  resolveHandler :: "'w P4ResolveHandler option"
  handler :: "'w P4OutputHandler option"
  progress :: "handle option"
  ssoHandler :: "handle option"
  alive :: int
  track :: bool
  caller :: 'w

text \<open>
  \<open>specs\<close> is the cache of the spec manager the object points to, the one of the
  client API that owns both. \<open>handler\<close> and \<open>resolveHandler\<close> stand for the
  pointers to the C++ handler objects: \<open>None\<close> is the null pointer, and a
  handler object is given by the Go handler registered for it.
\<close>

definition Reset :: "'w P4GoClientUser \<Rightarrow> 'w P4GoClientUser" where
  "Reset ui = ui\<lparr>results := fst (P4GoResults_Reset (results ui)), alive := 1\<rparr>"

definition IsAlive :: "'w P4GoClientUser \<Rightarrow> int" where
  "IsAlive ui = alive ui"

text \<open>
  \<^verbatim>\<open>CallOutputMethod( StrPtr data, bool binary )\<close>: whether to store the output, and
  the object afterwards.
\<close>

definition CallOutputMethod_str ::
  "string \<Rightarrow> bool \<Rightarrow> 'w P4OutputHandler \<Rightarrow> 'w P4GoClientUser \<Rightarrow> bool \<times> 'w P4GoClientUser" where
  "CallOutputMethod_str data binary h ui =
     (let (ret, w) = (if binary then goCallHandleBinaryFunction h (caller ui) data
                      else goCallHandleTextFunction h (caller ui) data);
          ui1 = ui\<lparr>caller := w\<rparr>;
          ui2 = (if ret = 2 then ui1\<lparr>alive := 0\<rparr> else ui1)
      in (ret = 0, ui2))"

text \<open>
  \<^verbatim>\<open>CallOutputMethod( StrDict* data )\<close>: whether to store the record, the record as
  the callback leaves it, and the object afterwards.
\<close>

definition CallOutputMethod_dict ::
  "StrBufDict \<Rightarrow> 'w P4OutputHandler \<Rightarrow> 'w P4GoClientUser
     \<Rightarrow> (bool \<times> StrBufDict) \<times> 'w P4GoClientUser" where
  "CallOutputMethod_dict data h ui =
     (let ((ret, w), data1) = goCallHandleStatFunction h (caller ui) data;
          ui1 = ui\<lparr>caller := w\<rparr>;
          ui2 = (if ret = 2 then ui1\<lparr>alive := 0\<rparr> else ui1)
      in ((ret = 0, data1), ui2))"

text \<open>\<^verbatim>\<open>CallOutputMethod( Error* e )\<close>.\<close>

definition CallOutputMethod_err ::
  "Error \<Rightarrow> 'w P4OutputHandler \<Rightarrow> 'w P4GoClientUser \<Rightarrow> bool \<times> 'w P4GoClientUser" where
  "CallOutputMethod_err e h ui =
     (let (ret, w) = goCallHandleMessageFunction h (caller ui) e;
          ui1 = ui\<lparr>caller := w\<rparr>;
          ui2 = (if ret = 2 then ui1\<lparr>alive := 0\<rparr> else ui1)
      in (ret = 0, ui2))"

text \<open>
  \<^verbatim>\<open>CallOutputMethod( P4GoSpecData* data )\<close>: the call of \<^verbatim>\<open>HandleSpec\<close> is
  commented out, the answer is 0.
\<close>

definition CallOutputMethod_spec ::
  "P4GoSpecData option \<Rightarrow> 'w P4OutputHandler \<Rightarrow> 'w P4GoClientUser \<Rightarrow> bool \<times> 'w P4GoClientUser" where
  "CallOutputMethod_spec data h ui =
     (let ret = (0::int);
          ui2 = (if ret = 2 then ui\<lparr>alive := 0\<rparr> else ui)
      in (ret = 0, ui2))"

definition ProcessOutput_str :: "string \<Rightarrow> bool \<Rightarrow> 'w P4GoClientUser \<Rightarrow> 'w P4GoClientUser" where
  "ProcessOutput_str data binary ui =
     (case handler ui of
        Some h \<Rightarrow>
          (let (store, ui1) = CallOutputMethod_str data binary h ui
           in if store then ui1\<lparr>results := AddOutput_str data binary (results ui1)\<rparr> else ui1)
      | None \<Rightarrow> ui\<lparr>results := AddOutput_str data binary (results ui)\<rparr>)"

definition ProcessOutput_dict :: "StrBufDict \<Rightarrow> 'w P4GoClientUser \<Rightarrow> 'w P4GoClientUser" where
  "ProcessOutput_dict data ui =
     (case handler ui of
        Some h \<Rightarrow>
          (let ((store, data1), ui1) = CallOutputMethod_dict data h ui
           in if store then ui1\<lparr>results := AddOutput_dict data1 (results ui1)\<rparr> else ui1)
      | None \<Rightarrow> ui\<lparr>results := AddOutput_dict data (results ui)\<rparr>)"

definition ProcessOutput_spec :: "P4GoSpecData option \<Rightarrow> 'w P4GoClientUser \<Rightarrow> 'w P4GoClientUser" where
  "ProcessOutput_spec data ui =
     (case handler ui of
        Some h \<Rightarrow>
          (let (store, ui1) = CallOutputMethod_spec data h ui
           in if store then ui1\<lparr>results := AddOutput_spec data (results ui1)\<rparr> else ui1)
      | None \<Rightarrow> ui\<lparr>results := AddOutput_spec data (results ui)\<rparr>)"

definition ProcessMessage :: "Error \<Rightarrow> 'w P4GoClientUser \<Rightarrow> 'w P4GoClientUser" where
  "ProcessMessage e ui =
     (case handler ui of
        Some h \<Rightarrow>
          (let (store, ui1) = CallOutputMethod_err e h ui
           in if store then ui1\<lparr>results := AddOutput_err e (results ui1)\<rparr> else ui1)
      | None \<Rightarrow> ui\<lparr>results := AddOutput_err e (results ui)\<rparr>)"

text \<open>
  \<^verbatim>\<open>OutputText( data, length )\<close>. The loop over \<open>i\<close> with the start \<open>p\<close> of the
  current track line: a newline after at least one character ends a track line,
  and the next one starts after the marker that follows; a newline at or before
  \<open>p\<close> takes the rollback branch and returns.
\<close>

definition newline :: char where
  "newline = CHR 0x0A"

function OutputText_loop ::
  "string \<Rightarrow> nat \<Rightarrow> nat \<Rightarrow> 'w P4GoClientUser \<Rightarrow> 'w P4GoClientUser" where
  "OutputText_loop data i p ui =
     (if i < length data then
        (if data ! i = newline then
           (if i > p then
              OutputText_loop data (Suc i) (i + 5)
                (ui\<lparr>results := AddTrack (take (i - p) (drop p data)) (results ui)\<rparr>)
            else
              (let ui1 = ProcessOutput_str data False ui
               in ui1\<lparr>results := fst (DeleteTrack (results ui1))\<rparr>))
         else OutputText_loop data (Suc i) p ui)
      else ui)"
  by pat_completeness auto
termination
  by (relation "measure (\<lambda>(data, i, p, ui). length data - i)") auto

declare OutputText_loop.simps [simp del]

definition OutputText :: "string \<Rightarrow> 'w P4GoClientUser \<Rightarrow> 'w P4GoClientUser" where
  "OutputText data ui =
     (if track ui \<and> length data > 4 \<and> data ! 0 = CHR ''-'' \<and> data ! 1 = CHR ''-'' \<and>
         data ! 2 = CHR ''-'' \<and> data ! 3 = CHR '' ''
      then OutputText_loop data 4 4 ui
      else ProcessOutput_str data False ui)"

definition Message :: "Error \<Rightarrow> 'w P4GoClientUser \<Rightarrow> 'w P4GoClientUser" where
  "Message e ui = ProcessMessage e ui"

definition OutputBinary :: "string \<Rightarrow> 'w P4GoClientUser \<Rightarrow> 'w P4GoClientUser" where
  "OutputBinary data ui = ProcessOutput_str data True ui"

definition HandleError :: "Error \<Rightarrow> 'w P4GoClientUser \<Rightarrow> 'w P4GoClientUser" where
  "HandleError e ui = ProcessMessage e ui"

text \<open>
  \<^verbatim>\<open>OutputStat( values )\<close>. The plain record is copied, without the variables
  \<^verbatim>\<open>specdef\<close>, \<^verbatim>\<open>func\<close> and \<^verbatim>\<open>specFormatted\<close>, into a \<^verbatim>\<open>new StrBufDict\<close>.
\<close>

definition plain_dict :: "StrDict \<Rightarrow> StrDict" where
  "plain_dict d =
     fold (\<lambda>kv nd. if fst kv = ''specdef'' \<or> fst kv = ''func'' \<or> fst kv = ''specFormatted''
                    then nd else SetVar (fst kv) (snd kv) nd) d []"

definition OutputStat :: "SpecApi \<Rightarrow> StrDict \<Rightarrow> 'w P4GoClientUser \<Rightarrow> 'w P4GoClientUser" where
  "OutputStat api values ui =
     (let spec = GetVar values ''specdef'';
          data = GetVar values ''data'';
          sf = GetVar values ''specFormatted''
      in case spec of
           None \<Rightarrow> ProcessOutput_dict \<lparr>entries = plain_dict values, last_freed = False\<rparr> ui
         | Some specDef \<Rightarrow>
             (let ui1 = ui\<lparr>specs := AddSpecDef (cmd ui) specDef (specs ui)\<rparr>
              in case data of
                   Some form \<Rightarrow>
                     (let e = Spec_new api specDef MakeError;
                          (parsed, e1) =
                            (if \<not> Error_Test e then Spec_ParseNoValid api specDef form e
                             else ([], e))
                      in if Error_Test e1 then HandleError e1 ui1
                         else ProcessOutput_spec (StrDictToSpec api parsed specDef) ui1)
                 | None \<Rightarrow>
                     (if sf \<noteq> None
                      then ProcessOutput_spec (StrDictToSpec api values specDef) ui1
                      else ProcessOutput_dict
                             \<lparr>entries = plain_dict values, last_freed = False\<rparr> ui1)))"

text \<open>
  \<^verbatim>\<open>Resolve( ClientMerge* m, Error* e )\<close> and
  \<^verbatim>\<open>Resolve( ClientResolveA* m, int preview, Error* e )\<close>: the answer for the
  engine and the object afterwards. \<open>varList\<close> holds the variables of the request.
  Without a handler the answer is that of the merge's own \<^verbatim>\<open>Resolve\<close>, which
  belongs to the API; the callbacks the API makes while it resolves (it may
  prompt and print) are callbacks of their own and not part of this function.
\<close>

definition Resolve ::
  "StrDict \<Rightarrow> ClientMerge \<Rightarrow> 'w P4GoClientUser \<Rightarrow> int \<times> 'w P4GoClientUser" where
  "Resolve varList m ui =
     (case resolveHandler ui of
        None \<Rightarrow> (cm_Resolve m, ui)
      | Some h \<Rightarrow>
          (let (ret, w) = goCallResolveFunction h (caller ui) (P4GoMergeData_content varList m)
           in (ret, ui\<lparr>caller := w\<rparr>)))"

definition ResolveA ::
  "ClientResolveA \<Rightarrow> 'w P4GoClientUser \<Rightarrow> int \<times> 'w P4GoClientUser" where
  "ResolveA m ui =
     (case resolveHandler ui of
        None \<Rightarrow> (cra_Resolve m, ui)
      | Some h \<Rightarrow>
          (let (ret, w) = goCallResolveFunction h (caller ui) (P4GoMergeData_action m)
           in (ret, ui\<lparr>caller := w\<rparr>)))"

definition SetHandler :: "'w P4OutputHandler option \<Rightarrow> 'w P4GoClientUser \<Rightarrow> 'w P4GoClientUser" where
  "SetHandler h ui = ui\<lparr>handler := h, alive := 1\<rparr>"



definition SetResolveHandler ::
  "'w P4ResolveHandler option \<Rightarrow> 'w P4GoClientUser \<Rightarrow> 'w P4GoClientUser" where
  "SetResolveHandler h ui = ui\<lparr>resolveHandler := h\<rparr>"

subsection \<open>The client API (p4goclientapi.cpp)\<close>

text \<open>
  What the engine does with one command, a parameter: the callbacks it makes on
  the client user object, in order; whether the connection is dropped afterwards
  (\<^verbatim>\<open>client.Dropped()\<close>); and what \<^verbatim>\<open>client.Final( e )\<close> and
  \<^verbatim>\<open>client.Init( e )\<close> leave in the error object.
\<close>

datatype event =
    EvOutputText string
  | EvOutputBinary string
  | EvOutputStat StrDict
  | EvMessage Error
  | EvHandleError Error
  | EvResolve StrDict ClientMerge
  | EvResolveA ClientResolveA

record Engine =
  events :: "event list"
  Dropped :: bool
  Final :: "Error \<Rightarrow> Error"
  Init :: "Error \<Rightarrow> Error"

fun deliver :: "SpecApi \<Rightarrow> event \<Rightarrow> 'w P4GoClientUser \<Rightarrow> 'w P4GoClientUser" where
  "deliver sapi (EvOutputText data) ui = OutputText data ui"
| "deliver sapi (EvOutputBinary data) ui = OutputBinary data ui"
| "deliver sapi (EvOutputStat values) ui = OutputStat sapi values ui"
| "deliver sapi (EvMessage e) ui = Message e ui"
| "deliver sapi (EvHandleError e) ui = HandleError e ui"
| "deliver sapi (EvResolve varList m) ui = snd (Resolve varList m ui)"
| "deliver sapi (EvResolveA m) ui = snd (ResolveA m ui)"

text \<open>
  Modelled from the spec: the header \<^verbatim>\<open>p4goclientapi.h\<close> with the flag
  operations \<^verbatim>\<open>IsConnected\<close>, \<^verbatim>\<open>SetConnected\<close> and \<^verbatim>\<open>ResetFlags\<close> is missing.
  The session is connected between a successful connect and the next disconnect:
  \<open>connected\<close> is that flag, set by the one and cleared by the other.
\<close>

record 'w P4GoClientApi =
  ui :: "'w P4GoClientUser"
  depth :: int
  exceptionLevel :: int
  connected :: bool

definition Disconnect :: "Engine \<Rightarrow> Error \<Rightarrow> 'w P4GoClientApi \<Rightarrow> (int \<times> Error) \<times> 'w P4GoClientApi" where
  "Disconnect eng e api =
     (if \<not> connected api then ((1, Error_Set E_WARN ''P4#disconnect - not connected'' e), api)
      else
        (let e1 = Final eng e;
             api1 = api\<lparr>connected := False\<rparr>;
             api2 = api1\<lparr>ui := (ui api1)\<lparr>specs := P4GoSpecMgr_Reset\<rparr>\<rparr>;
             api3 = api2\<lparr>ui := Reset (ui api2)\<rparr>
         in ((1, e1), api3)))"

definition ConnectOrReconnect ::
  "Engine \<Rightarrow> Error \<Rightarrow> 'w P4GoClientApi \<Rightarrow> (int \<times> Error) \<times> 'w P4GoClientApi" where
  "ConnectOrReconnect eng e api =
     (let api1 = api\<lparr>connected := False\<rparr>;
          e1 = Init eng e;
          e2 = (if Error_Test e1 \<and> exceptionLevel api1 \<noteq> 0
                then Error_Set E_FAILED ''P4#connect - Failed to connect to Perforce server.'' e1
                else e1)
      in if Error_Test e2 then ((0, e2), api1)
         else ((1, e2), api1\<lparr>connected := True\<rparr>))"

text \<open>\<^verbatim>\<open>RunCmd\<close>: the engine runs the command and makes its callbacks.\<close>

definition RunCmd :: "SpecApi \<Rightarrow> Engine \<Rightarrow> 'w P4GoClientApi \<Rightarrow> 'w P4GoClientApi" where
  "RunCmd sapi eng api = api\<lparr>ui := fold (deliver sapi) (events eng) (ui api)\<rparr>"

text \<open>
  \<^verbatim>\<open>Run( cmd, argc, argv, e )\<close>: whether it returns the results (or the null
  pointer), the error object, and the session afterwards.
\<close>

definition nested_msg :: string where
  "nested_msg = ''P4#run - Can'' @ [CHR 0x27] @ ''t execute nested Perforce commands.''"

definition Run ::
  "SpecApi \<Rightarrow> Engine \<Rightarrow> string \<Rightarrow> string list \<Rightarrow> Error \<Rightarrow> 'w P4GoClientApi
     \<Rightarrow> (bool \<times> Error) \<times> 'w P4GoClientApi" where
  "Run sapi eng c argv e api =
     (if depth api \<noteq> 0 then ((False, Error_Set E_WARN nested_msg e), api)
      else
        (let api1 = api\<lparr>ui := Reset (ui api)\<rparr>;
             e1 = (if \<not> connected api1 \<and> exceptionLevel api1 \<noteq> 0
                   then Error_Set E_FAILED ''P4#run - Not connected to a Perforce Server.'' e
                   else e)
         in if \<not> connected api1 then ((False, e1), api1)
            else
              (let api2 = api1\<lparr>ui := (ui api1)\<lparr>cmd := c\<rparr>\<rparr>;
                   api3 = api2\<lparr>depth := depth api2 + 1\<rparr>;
                   api4 = RunCmd sapi eng api3;
                   api5 = api4\<lparr>depth := depth api4 - 1\<rparr>
               in if handler (ui api5) \<noteq> None \<and> Dropped eng \<and> IsAlive (ui api5) = 0
                  then
                    (let ((r1, e2), api6) = Disconnect eng e1 api5;
                         ((r2, e3), api7) = ConnectOrReconnect eng e2 api6
                     in ((True, e3), api7))
                  else ((True, e1), api5))))"

subsection \<open>The Go layer (p4.go)\<close>

datatype P4Result =
    P4Data string
  | P4Track string
  | DictionaryResult Dictionary
  | P4MessageResult P4Message

text \<open>
  The message of a result: its dictionary is the error's, with the text of line
  \<open>j\<close> under the key \<^verbatim>\<open>Error j\<close>.
\<close>

definition error_keys :: "Error \<Rightarrow> StrDict" where
  "error_keys e = map (\<lambda>j. (''Error '' @ decimal j, id_fmt (ids e ! j))) [0 ..< GetErrorCount e]"

definition result_P4Message :: "Error \<Rightarrow> P4Message" where
  "result_P4Message e =
     \<lparr>msg_severity = severity e, lines = to_lines e,
      msgdict = to_Dictionary (error_keys e) (to_Dictionary (edict e) Map.empty)\<rparr>"

text \<open>
  One result of the collection as \<^verbatim>\<open>Run\<close> converts it. A payload pointer that
  is null is dereferenced: the spec of a record that \<^verbatim>\<open>StrDictToSpec\<close> could not
  convert. For a record and for a spec the pairs are read through two pointers
  \<^verbatim>\<open>k\<close> and \<^verbatim>\<open>v\<close>, and both are freed after the loop: when the dictionary is not
  empty they point into it, at its last variable and value. That storage is
  freed a second time when it was freed before, which ends the program.
\<close>

definition to_P4Result :: "P4GoResult \<Rightarrow> fault + P4Result" where
  "to_P4Result r =
     (case rtype r of
        STRING \<Rightarrow> (case str r of Some t \<Rightarrow> Inr (P4Data t) | None \<Rightarrow> Inl NullDereference)
      | BINARY \<Rightarrow> (case str r of Some t \<Rightarrow> Inr (P4Data t) | None \<Rightarrow> Inl NullDereference)
      | TRACK \<Rightarrow> (case str r of Some t \<Rightarrow> Inr (P4Track t) | None \<Rightarrow> Inl NullDereference)
      | DICT \<Rightarrow>
          (case dict r of
             Some d \<Rightarrow>
               if last_freed d then Inl DoubleFree
               else Inr (DictionaryResult (to_Dictionary (entries d) Map.empty))
           | None \<Rightarrow> Inl NullDereference)
      | SPEC \<Rightarrow>
          (case spec r of
             Some sp \<Rightarrow>
               if Dict_freed sp then Inl DoubleFree
               else Inr (DictionaryResult (to_Dictionary (Dict sp) Map.empty))
           | None \<Rightarrow> Inl NullDereference)
      | ERROR \<Rightarrow>
          (case err r of
             Some e \<Rightarrow> Inr (P4MessageResult (result_P4Message e))
           | None \<Rightarrow> Inl NullDereference))"

text \<open>The result as its conversion leaves it in the collection.\<close>

definition converted :: "P4GoResult \<Rightarrow> P4GoResult" where
  "converted r =
     (case rtype r of
        DICT \<Rightarrow> r\<lparr>dict := map_option (\<lambda>d. d\<lparr>last_freed := (entries d \<noteq> [])\<rparr>) (dict r)\<rparr>
      | SPEC \<Rightarrow> r\<lparr>spec := map_option (\<lambda>sp. sp\<lparr>Dict_freed := (Dict sp \<noteq> [])\<rparr>) (spec r)\<rparr>
      | _ \<Rightarrow> r)"

fun to_P4Results :: "P4GoResult list \<Rightarrow> fault + P4Result list" where
  "to_P4Results [] = Inr []"
| "to_P4Results (r # rs) =
     (case to_P4Result r of
        Inl f \<Rightarrow> Inl f
      | Inr x \<Rightarrow> (case to_P4Results rs of Inl f \<Rightarrow> Inl f | Inr xs \<Rightarrow> Inr (x # xs)))"

text \<open>
  \<^verbatim>\<open>handleCError\<close>: no Go error when the error object holds no message, else the
  message built from it.
\<close>

definition handleCError :: "Error \<Rightarrow> P4Message option" where
  "handleCError e = (if GetErrorCount e = 0 then None else Some (to_P4Message e))"

text \<open>
  \<^verbatim>\<open>func (p4 *P4) Run(cmd string, args ...string) ([]P4Result, error)\<close>: the
  fault that ends the program, or else the converted results, the error, and
  the session, in which every result is left as its conversion leaves it.
\<close>

definition P4_Run ::
  "SpecApi \<Rightarrow> Engine \<Rightarrow> string \<Rightarrow> string list \<Rightarrow> 'w P4GoClientApi
     \<Rightarrow> fault + ((P4Result list \<times> P4Message option) \<times> 'w P4GoClientApi)" where
  "P4_Run sapi eng c args api =
     (let ((r, e), api1) = Run sapi eng c args MakeError api;
          run_err = handleCError e;
          res = results (ui api1)
      in case to_P4Results (items res) of
           Inl f \<Rightarrow> Inl f
         | Inr xs \<Rightarrow>
             Inr ((xs, run_err),
                  api1\<lparr>ui := (ui api1)\<lparr>results := res\<lparr>items := map converted (items res)\<rparr>\<rparr>\<rparr>))"

subsection \<open>The fields of a message code (p4.go)\<close>

text \<open>
  \<^verbatim>\<open>e.lines[i]\<close>: Go panics when the index is out of range.
\<close>

definition line_at :: "P4Message \<Rightarrow> int \<Rightarrow> fault + P4MessageLine" where
  "line_at e i =
     (if 0 \<le> i \<and> i < int (length (lines e)) then Inr (lines e ! nat i)
      else Inl IndexOutOfRange)"

text \<open>
  The decoders. Go's \<^verbatim>\<open>int\<close> is signed and \<^verbatim>\<open>>>\<close> on it is the arithmetic
  shift, which \<open>drop_bit\<close> is on \<open>int\<close>.
\<close>

definition SubCode :: "P4Message \<Rightarrow> int \<Rightarrow> fault + int" where
  "SubCode e i = map_sum id (\<lambda>l. drop_bit 0 (code l) AND 0x3ff) (line_at e i)"

definition Subsystem :: "P4Message \<Rightarrow> int \<Rightarrow> fault + int" where
  "Subsystem e i = map_sum id (\<lambda>l. drop_bit 10 (code l) AND 0x3f) (line_at e i)"

definition Generic :: "P4Message \<Rightarrow> int \<Rightarrow> fault + int" where
  "Generic e i = map_sum id (\<lambda>l. drop_bit 16 (code l) AND 0xff) (line_at e i)"

definition ArgCount :: "P4Message \<Rightarrow> int \<Rightarrow> fault + int" where
  "ArgCount e i = map_sum id (\<lambda>l. drop_bit 24 (code l) AND 0x0f) (line_at e i)"

definition LineSeverity :: "P4Message \<Rightarrow> int \<Rightarrow> fault + int" where
  "LineSeverity e i = map_sum id (\<lambda>l. drop_bit 28 (code l) AND 0x0f) (line_at e i)"

definition UniqueCode :: "P4Message \<Rightarrow> int \<Rightarrow> fault + int" where
  "UniqueCode e i = map_sum id (\<lambda>l. code l AND 0xffff) (line_at e i)"

text \<open>
  For stating which bits of a code a decoder reads: the message with the single
  line of code \<open>c\<close>, and a decoder reads bit \<open>n\<close> when flipping that bit of some
  code changes what it returns.
\<close>

definition one_line :: "int \<Rightarrow> P4Message" where
  "one_line c =
     \<lparr>msg_severity = E_INFO,
      lines = [\<lparr>line_severity = E_INFO, code = c, fmt = []\<rparr>],
      msgdict = Map.empty\<rparr>"

definition reads_bit :: "(P4Message \<Rightarrow> int \<Rightarrow> fault + int) \<Rightarrow> nat \<Rightarrow> bool" where
  "reads_bit f n = (\<exists>c. f (one_line (c XOR push_bit n 1)) 0 \<noteq> f (one_line c) 0)"

subsection \<open>Constants of the Go layer\<close>

text \<open>\<^verbatim>\<open>P4OutputHandlerResult\<close> and \<^verbatim>\<open>P4MergeStatus\<close>, numbered by \<^verbatim>\<open>iota\<close>.\<close>

definition P4OUTPUTHANDLER_REPORT :: int where "P4OUTPUTHANDLER_REPORT = 0"
definition P4OUTPUTHANDLER_HANDLED :: int where "P4OUTPUTHANDLER_HANDLED = 1"
definition P4OUTPUTHANDLER_CANCEL :: int where "P4OUTPUTHANDLER_CANCEL = 2"

definition P4MD_QUIT :: int where "P4MD_QUIT = 0"
definition P4MD_SKIP :: int where "P4MD_SKIP = 1"
definition P4MD_MERGED :: int where "P4MD_MERGED = 2"
definition P4MD_EDIT :: int where "P4MD_EDIT = 3"
definition P4MD_THEIRS :: int where "P4MD_THEIRS = 4"
definition P4MD_YOURS :: int where "P4MD_YOURS = 5"

text \<open>
  The collection as \<^verbatim>\<open>Reset\<close> leaves it, and the client user object as its
  constructor leaves it, for a caller in state \<open>w\<close>.
\<close>

definition empty_results :: P4GoResults where
  "empty_results =
     \<lparr>items = [], infoCount = 0, warnCount = 0, errorCount = 0, trackCount = 0,
      dictCount = 0, specCount = 0, stringCount = 0\<rparr>"

definition new_P4GoClientUser :: "'w \<Rightarrow> 'w P4GoClientUser" where
  "new_P4GoClientUser w =
     \<lparr>cmd = [], specs = P4GoSpecMgr_Reset, results = empty_results, input = [],
      resolveHandler = None,
      handler = None, progress = None, ssoHandler = None, alive = 1, track = False,
      caller = w\<rparr>"

subsection \<open>Notions for stating the properties\<close>

text \<open>The result each \<^verbatim>\<open>AddOutput\<close> and \<^verbatim>\<open>AddTrack\<close> stores.\<close>

definition string_result :: "string \<Rightarrow> bool \<Rightarrow> P4GoResult" where
  "string_result data binary =
     (new_P4GoResult (if binary then BINARY else STRING))\<lparr>taken := Some 0, str := Some data\<rparr>"

definition track_result :: "string \<Rightarrow> P4GoResult" where
  "track_result t = (new_P4GoResult TRACK)\<lparr>taken := Some 0, str := Some t\<rparr>"

definition dict_result :: "StrBufDict \<Rightarrow> P4GoResult" where
  "dict_result d = (new_P4GoResult DICT)\<lparr>taken := Some 0, dict := Some d\<rparr>"

definition spec_result :: "P4GoSpecData option \<Rightarrow> P4GoResult" where
  "spec_result s = (new_P4GoResult SPEC)\<lparr>taken := Some 0, spec := s\<rparr>"

definition error_result :: "Error \<Rightarrow> P4GoResult" where
  "error_result e = (new_P4GoResult ERROR)\<lparr>err := Some e\<rparr>"

text \<open>
  The text that \<^verbatim>\<open>OutputText\<close> takes for track output, and the record that
  \<^verbatim>\<open>OutputStat\<close> takes for a spec (\<^verbatim>\<open>isspec\<close>).
\<close>

definition is_track_text :: "'w P4GoClientUser \<Rightarrow> string \<Rightarrow> bool" where
  "is_track_text u data =
     (track u \<and> length data > 4 \<and> data ! 0 = CHR ''-'' \<and> data ! 1 = CHR ''-'' \<and>
      data ! 2 = CHR ''-'' \<and> data ! 3 = CHR '' '')"

definition spec_marked :: "StrDict \<Rightarrow> bool" where
  "spec_marked values =
     (GetVar values ''specdef'' \<noteq> None
      \<and> (GetVar values ''specFormatted'' \<noteq> None \<or> GetVar values ''data'' \<noteq> None))"

text \<open>How many results of a kind a collection holds.\<close>

definition count_type :: "P4GoResultType \<Rightarrow> P4GoResults \<Rightarrow> nat" where
  "count_type t r = length (filter (\<lambda>x. rtype x = t) (items r))"

text \<open>A list of results without the track lines at its end.\<close>

definition trailing_tracks_off :: "P4GoResult list \<Rightarrow> P4GoResult list" where
  "trailing_tracks_off xs = rev (dropWhile (\<lambda>r. rtype r = TRACK) (rev xs))"

text \<open>The number that a string of decimal digits stands for.\<close>

definition digits_value :: "string \<Rightarrow> nat" where
  "digits_value s = foldl (\<lambda>a ch. 10 * a + (of_char ch - 48)) 0 s"

text \<open>\<^verbatim>\<open>P4GoClientApi()\<close>: the session as its constructor leaves it.\<close>

definition new_P4GoClientApi :: "'w \<Rightarrow> 'w P4GoClientApi" where
  "new_P4GoClientApi w =
     \<lparr>ui = new_P4GoClientUser w, depth = 0, exceptionLevel = 2, connected = False\<rparr>"

subsection \<open>Instances of the parameters\<close>

text \<open>
  For the concrete runs below: a spec API that accepts every definition, renders
  every record as \<open>form\<close> and parses every form to \<open>table\<close>; and an engine that
  makes the callbacks \<open>evs\<close>, keeps the connection and reports no error of its own.
\<close>

definition fixed_SpecApi :: "string \<Rightarrow> StrDict \<Rightarrow> SpecApi" where
  "fixed_SpecApi form table =
     \<lparr>Spec_new = (\<lambda>specDef e. e),
      Spec_Format = (\<lambda>specDef d. form),
      Spec_ParseNoValid = (\<lambda>specDef f e. (table, e))\<rparr>"

definition quiet_Engine :: "event list \<Rightarrow> Engine" where
  "quiet_Engine evs = \<lparr>events = evs, Dropped = False, Final = (\<lambda>e. e), Init = (\<lambda>e. e)\<rparr>"

section \<open>Properties\<close>

subsection \<open>The fields of a message code\<close>

lemma field_flip:
  fixes c :: int
  shows "(drop_bit s (c XOR push_bit n 1) AND mask w \<noteq> drop_bit s c AND mask w)
           \<longleftrightarrow> (s \<le> n \<and> n < s + w)"
proof -
  let ?y = "drop_bit s (push_bit n (1::int)) AND mask w"
  have split: "drop_bit s (c XOR push_bit n 1) AND mask w = (drop_bit s c AND mask w) XOR ?y"
    by (rule bit_eqI) (auto simp add: bit_simps)
  have y: "?y \<noteq> 0 \<longleftrightarrow> (s \<le> n \<and> n < s + w)"
  proof
    assume "?y \<noteq> 0"
    then obtain k where "bit ?y k" by (auto simp add: bit_eq_iff)
    then show "s \<le> n \<and> n < s + w" by (auto simp add: bit_simps)
  next
    assume a: "s \<le> n \<and> n < s + w"
    then have "bit ?y (n - s)" by (auto simp add: bit_simps)
    then show "?y \<noteq> 0" by (auto simp add: bit_eq_iff)
  qed
  have "((drop_bit s c AND mask w) XOR ?y \<noteq> drop_bit s c AND mask w) \<longleftrightarrow> ?y \<noteq> 0"
  proof -
    have "\<And>x y::int. (x XOR y = x) \<longleftrightarrow> y = 0"
    proof
      fix x y :: int
      assume "x XOR y = x"
      then have "x XOR (x XOR y) = x XOR x" by simp
      then show "y = 0" by (simp add: xor.assoc [symmetric])
    next
      fix x y :: int
      assume "y = 0" then show "x XOR y = x" by simp
    qed
    then show ?thesis by simp
  qed
  with split y show ?thesis by simp
qed

lemma code_masks:
  "(0x3ff::int) = mask 10" "(0x3f::int) = mask 6" "(0xff::int) = mask 8"
  "(0x0f::int) = mask 4" "(0xffff::int) = mask 16"
  by (simp_all add: mask_eq_exp_minus_1)

lemma line_at_one_line:
  "line_at (one_line c) 0 = Inr \<lparr>line_severity = E_INFO, code = c, fmt = []\<rparr>"
  by (simp add: line_at_def one_line_def)

lemma reads_bit_SubCode: "reads_bit SubCode n \<longleftrightarrow> n < 10"
  unfolding reads_bit_def SubCode_def line_at_one_line code_masks
  using field_flip [of 0 _ n 10] by simp

lemma reads_bit_Subsystem: "reads_bit Subsystem n \<longleftrightarrow> 10 \<le> n \<and> n < 16"
  unfolding reads_bit_def Subsystem_def line_at_one_line code_masks
  using field_flip [of 10 _ n 6] by simp

lemma reads_bit_Generic: "reads_bit Generic n \<longleftrightarrow> 16 \<le> n \<and> n < 24"
  unfolding reads_bit_def Generic_def line_at_one_line code_masks
  using field_flip [of 16 _ n 8] by simp

lemma reads_bit_ArgCount: "reads_bit ArgCount n \<longleftrightarrow> 24 \<le> n \<and> n < 28"
  unfolding reads_bit_def ArgCount_def line_at_one_line code_masks
  using field_flip [of 24 _ n 4] by simp

lemma reads_bit_UniqueCode: "reads_bit UniqueCode n \<longleftrightarrow> n < 16"
  unfolding reads_bit_def UniqueCode_def line_at_one_line code_masks
  using field_flip [of 0 _ n 16] by simp

lemma unique_code_split:
  fixes c :: int
  shows "c AND 0xffff = push_bit 10 (drop_bit 10 c AND 0x3f) OR (c AND 0x3ff)"
  unfolding code_masks
  by (rule bit_eqI) (auto simp add: bit_simps)

text \<open>
  C10, as the code has it. Each decoder computes the formula of the claim on the
  code of line \<open>i\<close> (and panics when there is no such line). The sub-code reads
  exactly bits 0 to 9, the subsystem bits 10 to 15, the generic category bits 16 to
  23 and the argument count bits 24 to 27, so these four share no bit; the unique
  code reads bits 0 to 15, which are the bits of the subsystem and of the sub-code
  together; no decoder of the five reads bit 28 or above.
\<close>

theorem code_fields:
  "SubCode e i = map_sum id (\<lambda>l. code l AND 0x3ff) (line_at e i)
   \<and> Subsystem e i = map_sum id (\<lambda>l. drop_bit 10 (code l) AND 0x3f) (line_at e i)
   \<and> Generic e i = map_sum id (\<lambda>l. drop_bit 16 (code l) AND 0xff) (line_at e i)
   \<and> ArgCount e i = map_sum id (\<lambda>l. drop_bit 24 (code l) AND 0xf) (line_at e i)
   \<and> UniqueCode e i = map_sum id (\<lambda>l. code l AND 0xffff) (line_at e i)
   \<and> UniqueCode e i =
       map_sum id (\<lambda>l. push_bit 10 (drop_bit 10 (code l) AND 0x3f) OR (code l AND 0x3ff))
         (line_at e i)
   \<and> (reads_bit SubCode n \<longleftrightarrow> n < 10)
   \<and> (reads_bit Subsystem n \<longleftrightarrow> 10 \<le> n \<and> n < 16)
   \<and> (reads_bit Generic n \<longleftrightarrow> 16 \<le> n \<and> n < 24)
   \<and> (reads_bit ArgCount n \<longleftrightarrow> 24 \<le> n \<and> n < 28)
   \<and> (reads_bit UniqueCode n \<longleftrightarrow> n < 16)"
proof -
  have u: "UniqueCode e i =
       map_sum id (\<lambda>l. push_bit 10 (drop_bit 10 (code l) AND 0x3f) OR (code l AND 0x3ff))
         (line_at e i)"
    unfolding UniqueCode_def by (simp only: unique_code_split)
  show ?thesis
    using u reads_bit_SubCode reads_bit_Subsystem reads_bit_Generic reads_bit_ArgCount
      reads_bit_UniqueCode
    by (simp add: SubCode_def Subsystem_def Generic_def ArgCount_def UniqueCode_def)
qed

text \<open>
  C10 as stated fails: the listed fields do not partition the bits of a code.
  Bit 0 is read by the sub-code and by the unique code, and bit 28 by none of the
  five decoders.
\<close>

theorem code_fields_not_a_partition:
  "reads_bit SubCode 0 \<and> reads_bit UniqueCode 0
   \<and> \<not> reads_bit SubCode 28 \<and> \<not> reads_bit Subsystem 28 \<and> \<not> reads_bit Generic 28
   \<and> \<not> reads_bit ArgCount 28 \<and> \<not> reads_bit UniqueCode 28"
  by (simp add: reads_bit_SubCode reads_bit_Subsystem reads_bit_Generic reads_bit_ArgCount
      reads_bit_UniqueCode)

subsection \<open>Merge data\<close>

text \<open>
  C9, on the code. A merge case is built by one of the two constructors, and
  exactly one of the two discriminants holds for it. The C++ accessors do not
  fail: on a content resolve every action accessor returns the null pointer,
  and a name that the request does not carry (or carries empty) and a file the
  merge does not have is the null pointer too; on an action resolve every name
  and path accessor returns the null pointer, which the Go accessors for names
  and paths read as the empty string. The Go accessors for the action messages
  return the messages on an action resolve, but on a content resolve each of
  \<^verbatim>\<open>ActionType\<close>, \<^verbatim>\<open>MergeAction\<close>, \<^verbatim>\<open>TheirAction\<close> and \<^verbatim>\<open>YourAction\<close> dereferences
  the null pointer it gets: it fails instead of returning an unset value.
\<close>

theorem merge_data_accessors:
  "(let md = P4GoMergeData_content varList m
    in IsContentResolve md \<and> \<not> IsActionResolve md
       \<and> GetContentResolveStatus md = 1 \<and> GetActionResolveStatus md = 0
       \<and> GetMergeAction md = None \<and> GetYoursAction md = None
       \<and> GetTheirAction md = None \<and> GetType md = None
       \<and> ActionType md = Inl NullDereference \<and> MergeAction md = Inl NullDereference
       \<and> TheirAction md = Inl NullDereference \<and> YourAction md = Inl NullDereference
       \<and> GetYourName md =
           (case GetVar varList ''yourName'' of
              None \<Rightarrow> None | Some t \<Rightarrow> if t = [] then None else Some t)
       \<and> GetTheirName md =
           (case GetVar varList ''theirName'' of
              None \<Rightarrow> None | Some t \<Rightarrow> if t = [] then None else Some t)
       \<and> GetBaseName md =
           (case GetVar varList ''baseName'' of
              None \<Rightarrow> None | Some t \<Rightarrow> if t = [] then None else Some t)
       \<and> GetYourPath md = cm_YourFile m \<and> GetTheirPath md = cm_TheirFile m
       \<and> GetBasePath md = cm_BaseFile m \<and> GetResultPath md = cm_ResultFile m
       \<and> MergeHint md = cm_AutoResolve m)
   \<and> (let md = P4GoMergeData_action a
      in IsActionResolve md \<and> \<not> IsContentResolve md
         \<and> GetActionResolveStatus md = 1 \<and> GetContentResolveStatus md = 0
         \<and> GetYourName md = None \<and> GetTheirName md = None \<and> GetBaseName md = None
         \<and> GetYourPath md = None \<and> GetTheirPath md = None \<and> GetBasePath md = None
         \<and> GetResultPath md = None
         \<and> YourName md = [] \<and> TheirName md = [] \<and> BaseName md = []
         \<and> YourPath md = [] \<and> TheirPath md = [] \<and> BasePath md = [] \<and> ResultPath md = []
         \<and> GetMergeAction md = Some (cra_MergeAction a)
         \<and> GetYoursAction md = Some (cra_YoursAction a)
         \<and> GetTheirAction md = Some (cra_TheirAction a)
         \<and> GetType md = Some (cra_Type a)
         \<and> ActionType md = Inr (to_P4Message (cra_Type a))
         \<and> MergeAction md = Inr (to_P4Message (cra_MergeAction a))
         \<and> TheirAction md = Inr (to_P4Message (cra_TheirAction a))
         \<and> YourAction md = Inr (to_P4Message (cra_YoursAction a))
         \<and> MergeHint md = cra_AutoResolve a)"
  by (simp add: Let_def P4GoMergeData_content_def P4GoMergeData_action_def
      IsContentResolve_def IsActionResolve_def GetContentResolveStatus_def
      GetActionResolveStatus_def GetMergeAction_def GetYoursAction_def GetTheirAction_def
      GetType_def GetYourName_def GetTheirName_def GetBaseName_def GetYourPath_def
      GetTheirPath_def GetBasePath_def GetResultPath_def YourName_def TheirName_def
      BaseName_def YourPath_def TheirPath_def BasePath_def ResultPath_def GoString_def
      ActionType_def MergeAction_def TheirAction_def YourAction_def MergeHint_def
      GetMergeHint_def split: option.split)

subsection \<open>Resolve\<close>

lemma C_int_small: "- 2147483648 \<le> r \<Longrightarrow> r < 2147483648 \<Longrightarrow> C_int r = r"
  by (simp add: C_int_def signed_take_bit_int_eq_self)

lemma C_int_012: "C_int 0 = 0" "C_int 1 = 1" "C_int 2 = 2"
  by (simp_all add: C_int_small)

lemma C_int_merge_status:
  "C_int P4MD_QUIT = P4MD_QUIT" "C_int P4MD_SKIP = P4MD_SKIP" "C_int P4MD_MERGED = P4MD_MERGED"
  "C_int P4MD_EDIT = P4MD_EDIT" "C_int P4MD_THEIRS = P4MD_THEIRS" "C_int P4MD_YOURS = P4MD_YOURS"
  by (simp_all add: C_int_small P4MD_QUIT_def P4MD_SKIP_def P4MD_MERGED_def P4MD_EDIT_def
      P4MD_THEIRS_def P4MD_YOURS_def)

lemma C_int_handler_result:
  "C_int P4OUTPUTHANDLER_REPORT = 0" "C_int P4OUTPUTHANDLER_HANDLED = 1"
  "C_int P4OUTPUTHANDLER_CANCEL = 2"
  by (simp_all add: C_int_small P4OUTPUTHANDLER_REPORT_def P4OUTPUTHANDLER_HANDLED_def
      P4OUTPUTHANDLER_CANCEL_def)

text \<open>
  C6, as the code has it. Without a resolve handler the answer is the one the
  engine's own resolve of the merge gives; the hint of the merge is not read, so
  the answer is the same whatever the hint is. With a handler, the handler is
  called once on the caller's state with the merge case built from the merge: for
  a content resolve the merge, the hint the engine computes for it and the three
  names of the request, for an action resolve the merge and its hint. The answer
  is the handler's, converted to a C \<^verbatim>\<open>int\<close>, which leaves each of the six
  decisions as it is; the caller's state is the one that single call leaves and
  nothing else of the session changes.
\<close>

theorem resolve_negotiation:
  "(resolveHandler u = None \<longrightarrow>
      fst (Resolve varList m u) = cm_Resolve m \<and> fst (ResolveA a u) = cra_Resolve a
      \<and> (\<forall>x. fst (Resolve varList (m\<lparr>cm_AutoResolve := x\<rparr>) u) = fst (Resolve varList m u))
      \<and> (\<forall>x. fst (ResolveA (a\<lparr>cra_AutoResolve := x\<rparr>) u) = fst (ResolveA a u)))
   \<and> (resolveHandler u = Some h \<longrightarrow>
      (let md = \<lparr>merger = Some m, actionmerger = None, hint = cm_AutoResolve m,
                 yours = (case GetVar varList ''yourName'' of Some t \<Rightarrow> t | None \<Rightarrow> []),
                 theirs = (case GetVar varList ''theirName'' of Some t \<Rightarrow> t | None \<Rightarrow> []),
                 base = (case GetVar varList ''baseName'' of Some t \<Rightarrow> t | None \<Rightarrow> [])\<rparr>
       in Resolve varList m u =
            (C_int (fst (h (caller u) md)), u\<lparr>caller := snd (h (caller u) md)\<rparr>))
      \<and> (let md = \<lparr>merger = None, actionmerger = Some a, hint = cra_AutoResolve a,
                    yours = [], theirs = [], base = []\<rparr>
         in ResolveA a u =
              (C_int (fst (h (caller u) md)), u\<lparr>caller := snd (h (caller u) md)\<rparr>)))
   \<and> C_int P4MD_QUIT = P4MD_QUIT \<and> C_int P4MD_SKIP = P4MD_SKIP
   \<and> C_int P4MD_MERGED = P4MD_MERGED \<and> C_int P4MD_EDIT = P4MD_EDIT
   \<and> C_int P4MD_THEIRS = P4MD_THEIRS \<and> C_int P4MD_YOURS = P4MD_YOURS"
  by (simp add: Resolve_def ResolveA_def goCallResolveFunction_def P4GoMergeData_content_def
      P4GoMergeData_action_def C_int_merge_status Let_def split_beta)

text \<open>
  C6 as stated fails: a merge whose hint is to accept theirs, but whose own
  resolve skips, resolves to skip when no handler is registered.
\<close>

theorem resolve_ignores_hint:
  "(let m = \<lparr>cm_AutoResolve = P4MD_THEIRS, cm_Resolve = P4MD_SKIP,
             cm_YourFile = Some ''/ws/foo'', cm_TheirFile = Some ''/tmp/theirs'',
             cm_BaseFile = Some ''/tmp/base'', cm_ResultFile = Some ''/tmp/result''\<rparr>;
        u = new_P4GoClientUser ()
    in resolveHandler u = None
       \<and> MergeHint (P4GoMergeData_content [] m) = P4MD_THEIRS
       \<and> fst (Resolve [] m u) = P4MD_SKIP
       \<and> P4MD_SKIP \<noteq> P4MD_THEIRS)"
  by (simp add: Let_def new_P4GoClientUser_def Resolve_def MergeHint_def GetMergeHint_def
      P4GoMergeData_content_def P4MD_SKIP_def P4MD_THEIRS_def)

text \<open>
  An instance: without a handler the answer of that merge is its own resolve's,
  also when its hint is changed; a handler that records the merge case and
  answers with its hint is called once, sees the hint and the names, and its
  answer is the answer.
\<close>

theorem resolve_negotiation_witness:
  "(let m = \<lparr>cm_AutoResolve = P4MD_THEIRS, cm_Resolve = P4MD_SKIP,
             cm_YourFile = Some ''/ws/foo'', cm_TheirFile = Some ''/tmp/theirs'',
             cm_BaseFile = Some ''/tmp/base'', cm_ResultFile = Some ''/tmp/result''\<rparr>;
        varList = [(''yourName'', ''//ws/foo''), (''theirName'', ''//depot/foo#2''),
                   (''baseName'', ''//depot/foo#1'')];
        u0 = new_P4GoClientUser ([] :: P4GoMergeData list);
        u1 = SetResolveHandler (Some (\<lambda>w md. (MergeHint md, w @ [md]))) u0
    in resolveHandler u0 = None
       \<and> fst (Resolve varList m u0) = P4MD_SKIP
       \<and> fst (Resolve varList (m\<lparr>cm_AutoResolve := P4MD_YOURS\<rparr>) u0) = P4MD_SKIP
       \<and> fst (Resolve varList m u1) = P4MD_THEIRS
       \<and> caller (snd (Resolve varList m u1)) =
           [\<lparr>merger = Some m, actionmerger = None, hint = P4MD_THEIRS,
             yours = ''//ws/foo'', theirs = ''//depot/foo#2'', base = ''//depot/foo#1''\<rparr>])"
proof -
  let ?m = "\<lparr>cm_AutoResolve = P4MD_THEIRS, cm_Resolve = P4MD_SKIP,
             cm_YourFile = Some ''/ws/foo'', cm_TheirFile = Some ''/tmp/theirs'',
             cm_BaseFile = Some ''/tmp/base'', cm_ResultFile = Some ''/tmp/result''\<rparr>"
  let ?vl = "[(''yourName'', ''//ws/foo''), (''theirName'', ''//depot/foo#2''),
                   (''baseName'', ''//depot/foo#1'')]"
  let ?u0 = "new_P4GoClientUser ([] :: P4GoMergeData list)"
  let ?h = "\<lambda>(w :: P4GoMergeData list) md. (MergeHint md, w @ [md])"
  let ?u1 = "SetResolveHandler (Some ?h) ?u0"
  have n: "resolveHandler ?u0 = None" by (simp add: new_P4GoClientUser_def)
  have s: "resolveHandler ?u1 = Some ?h" by (simp add: SetResolveHandler_def)
  have c: "caller ?u1 = []" by (simp add: SetResolveHandler_def new_P4GoClientUser_def)
  have g: "GetVar ?vl ''yourName'' = Some ''//ws/foo''"
    "GetVar ?vl ''theirName'' = Some ''//depot/foo#2''"
    "GetVar ?vl ''baseName'' = Some ''//depot/foo#1''"
    by (simp_all add: GetVar_def)
  note t = resolve_negotiation [of ?u0 ?vl ?m undefined ?h]
  from t n have a1: "fst (Resolve ?vl ?m ?u0) = P4MD_SKIP" by simp
  from t n have "fst (Resolve ?vl (?m\<lparr>cm_AutoResolve := P4MD_YOURS\<rparr>) ?u0)
      = fst (Resolve ?vl ?m ?u0)" by blast
  with a1 have a: "fst (Resolve ?vl ?m ?u0) = P4MD_SKIP
     \<and> fst (Resolve ?vl (?m\<lparr>cm_AutoResolve := P4MD_YOURS\<rparr>) ?u0) = P4MD_SKIP"
    by (simp only: simp_thms)
  from resolve_negotiation [of ?u1 ?vl ?m undefined ?h] s c g
  have b: "fst (Resolve ?vl ?m ?u1) = P4MD_THEIRS
     \<and> caller (snd (Resolve ?vl ?m ?u1)) =
           [\<lparr>merger = Some ?m, actionmerger = None, hint = P4MD_THEIRS,
             yours = ''//ws/foo'', theirs = ''//depot/foo#2'', base = ''//depot/foo#1''\<rparr>]"
    by (simp add: Let_def MergeHint_def GetMergeHint_def)
  from n a b show ?thesis by (simp add: Let_def)
qed

subsection \<open>Running a command\<close>

lemma Reset_loop_all: "Reset_loop (length xs) xs gone = ([], gone @ map Destroy (rev xs))"
proof (induction xs arbitrary: gone rule: rev_induct)
  case Nil
  then show ?case by simp
next
  case (snoc x xs)
  have "Reset_loop (length (xs @ [x])) (xs @ [x]) gone
      = Reset_loop (length xs) xs (gone @ [Destroy x])" by simp
  with snoc show ?case by simp
qed

lemma P4GoResults_Reset_empty: "fst (P4GoResults_Reset r) = empty_results"
  by (simp add: P4GoResults_Reset_def empty_results_def Reset_loop_all)


text \<open>
  C5. While a command is outstanding (depth above 0), \<^verbatim>\<open>Run\<close> sets the error
  about nested commands and returns the null pointer; the session is exactly as
  before, so the collection of the outstanding command is not cleared, and the
  engine is not asked to run anything. The error the Go layer builds from the
  error object is that message.
\<close>

theorem nested_run_fails_fast:
  assumes "depth api \<noteq> 0"
  shows "Run sapi eng c argv e api = ((False, Error_Set E_WARN nested_msg e), api)
    \<and> handleCError (snd (fst (Run sapi eng c argv MakeError api))) =
        Some \<lparr>msg_severity = E_WARN,
              lines = [\<lparr>line_severity = E_WARN, code = set_code E_WARN, fmt = nested_msg\<rparr>],
              msgdict = Map.empty\<rparr>"
  using assms
  by (simp add: Run_def handleCError_def GetErrorCount_def Error_Set_def MakeError_def
      to_lines_def to_P4Message_def)

text \<open>
  An instance: a session at depth 1 that holds one result keeps it, and the
  callback the engine would make is not made.
\<close>

theorem nested_run_fails_fast_witness:
  "(let api = (new_P4GoClientApi ())\<lparr>
                 ui := (new_P4GoClientUser ())\<lparr>results := AddOutput_str ''first'' False empty_results\<rparr>,
                 depth := 1, connected := True\<rparr>;
        eng = quiet_Engine [EvOutputText ''second''];
        out = Run (fixed_SpecApi [] []) eng ''info'' [] MakeError api
    in depth api \<noteq> 0
       \<and> fst (fst out) = False
       \<and> map id_fmt (ids (snd (fst out))) = [nested_msg]
       \<and> snd out = api
       \<and> map str (items (results (ui (snd out)))) = [Some ''first''])"
proof -
  let ?api = "(new_P4GoClientApi ())\<lparr>
                 ui := (new_P4GoClientUser ())\<lparr>results := AddOutput_str ''first'' False empty_results\<rparr>,
                 depth := 1, connected := True\<rparr>"
  have d: "depth ?api \<noteq> 0" by simp
  have r: "map str (items (results (ui ?api))) = [Some ''first'']"
    by (simp add: AddOutput_str_def empty_results_def new_P4GoResult_def)
  from nested_run_fails_fast [OF d, of "fixed_SpecApi [] []" "quiet_Engine [EvOutputText ''second'']" "''info''" "[]" MakeError]
  show ?thesis using d r by (simp add: Let_def Error_Set_def MakeError_def)
qed




subsection \<open>The collection under the output callbacks\<close>

text \<open>\<^verbatim>\<open>DeleteTrack\<close> removes exactly the track lines at the end of the collection.\<close>

lemma DeleteTrack_loop_snoc:
  "DeleteTrack_loop (Suc (length xs)) (xs @ [x]) gone =
     (if rtype x \<noteq> TRACK then (xs @ [x], gone)
      else DeleteTrack_loop (length xs) xs (gone @ [Destroy x]))"
  by simp

lemma DeleteTrack_loop_eq: "fst (DeleteTrack_loop (length xs) xs gone) = trailing_tracks_off xs"
proof (induction xs arbitrary: gone rule: rev_induct)
  case Nil
  then show ?case by (simp add: trailing_tracks_off_def)
next
  case (snoc x xs)
  have "DeleteTrack_loop (length (xs @ [x])) (xs @ [x]) gone =
     (if rtype x \<noteq> TRACK then (xs @ [x], gone)
      else DeleteTrack_loop (length xs) xs (gone @ [Destroy x]))"
    using DeleteTrack_loop_snoc [of xs x gone] by simp
  with snoc show ?case by (simp add: trailing_tracks_off_def)
qed

lemma items_DeleteTrack: "items (fst (DeleteTrack r)) = trailing_tracks_off (items r)"
  by (simp add: DeleteTrack_def split_beta DeleteTrack_loop_eq)

lemma DeleteTrack_loop_gone:
  "snd (DeleteTrack_loop (length xs) xs gone) =
     gone @ map Destroy (takeWhile (\<lambda>r. rtype r = TRACK) (rev xs))"
proof (induction xs arbitrary: gone rule: rev_induct)
  case Nil
  then show ?case by simp
next
  case (snoc x xs)
  have "DeleteTrack_loop (length (xs @ [x])) (xs @ [x]) gone =
     (if rtype x \<noteq> TRACK then (xs @ [x], gone)
      else DeleteTrack_loop (length xs) xs (gone @ [Destroy x]))"
    using DeleteTrack_loop_snoc [of xs x gone] by simp
  with snoc show ?case by simp
qed

lemma DeleteTrack_gone:
  "snd (DeleteTrack r) = map Destroy (takeWhile (\<lambda>r. rtype r = TRACK) (rev (items r)))"
  by (simp add: DeleteTrack_def split_beta DeleteTrack_loop_gone)

lemma trailing_tracks_off_keeps_prefix:
  assumes "pre \<noteq> []" and "rtype (last pre) \<noteq> TRACK"
  shows "prefix pre (trailing_tracks_off (pre @ rest))"
proof (induction rest rule: rev_induct)
  case Nil
  from assms obtain b l where p: "pre = b @ [l]" and l: "rtype l \<noteq> TRACK"
    by (metis append_butlast_last_id)
  then show ?case by (simp add: trailing_tracks_off_def)
next
  case (snoc x rest)
  show ?case
  proof (cases "rtype x = TRACK")
    case True
    then have "trailing_tracks_off (pre @ rest @ [x]) = trailing_tracks_off (pre @ rest)"
      by (simp add: trailing_tracks_off_def)
    with snoc show ?thesis by simp
  next
    case False
    then have "trailing_tracks_off (pre @ rest @ [x]) = pre @ rest @ [x]"
      by (simp add: trailing_tracks_off_def)
    then show ?thesis by simp
  qed
qed

lemma filter_trailing_tracks_off:
  assumes "\<And>r. P r \<Longrightarrow> rtype r \<noteq> TRACK"
  shows "filter P (trailing_tracks_off xs) = filter P xs"
proof (induction xs rule: rev_induct)
  case Nil
  then show ?case by (simp add: trailing_tracks_off_def)
next
  case (snoc x xs)
  show ?case
  proof (cases "rtype x = TRACK")
    case True
    then have "trailing_tracks_off (xs @ [x]) = trailing_tracks_off xs"
      by (simp add: trailing_tracks_off_def)
    moreover from True assms have "\<not> P x" by blast
    ultimately show ?thesis using snoc by simp
  next
    case False
    then show ?thesis by (simp add: trailing_tracks_off_def)
  qed
qed

text \<open>What each processing step does to the fields of the client user object.\<close>

lemma ProcessOutput_str_fields:
  "handler (ProcessOutput_str data b u) = handler u"
  "track (ProcessOutput_str data b u) = track u"
  "items (results (ProcessOutput_str data b u)) =
     (case handler u of
        None \<Rightarrow> items (results u) @ [string_result data b]
      | Some h \<Rightarrow>
          if C_int (fst ((if b then HandleBinary h else HandleText h) (caller u) data)) = 0
          then items (results u) @ [string_result data b] else items (results u))"
  "alive (ProcessOutput_str data b u) =
     (case handler u of
        None \<Rightarrow> alive u
      | Some h \<Rightarrow>
          if C_int (fst ((if b then HandleBinary h else HandleText h) (caller u) data)) = 2
          then 0 else alive u)"
  "caller (ProcessOutput_str data b u) =
     (case handler u of
        None \<Rightarrow> caller u
      | Some h \<Rightarrow> snd ((if b then HandleBinary h else HandleText h) (caller u) data))"
  by (auto simp add: ProcessOutput_str_def CallOutputMethod_str_def AddOutput_str_def
      goCallHandleBinaryFunction_def goCallHandleTextFunction_def
      string_result_def Let_def split: option.split prod.split)

lemma ProcessOutput_dict_fields:
  "handler (ProcessOutput_dict d u) = handler u"
  "items (results (ProcessOutput_dict d u)) =
     (case handler u of
        None \<Rightarrow> items (results u) @ [dict_result d]
      | Some h \<Rightarrow>
          if C_int (fst (HandleStat h (caller u) (to_Dictionary (entries d) Map.empty))) = 0
          then items (results u) @
                 [dict_result (d\<lparr>last_freed := (last_freed d \<or> entries d \<noteq> [])\<rparr>)]
          else items (results u))"
  "alive (ProcessOutput_dict d u) =
     (case handler u of
        None \<Rightarrow> alive u
      | Some h \<Rightarrow>
          if C_int (fst (HandleStat h (caller u) (to_Dictionary (entries d) Map.empty))) = 2
          then 0 else alive u)"
  "caller (ProcessOutput_dict d u) =
     (case handler u of
        None \<Rightarrow> caller u
      | Some h \<Rightarrow> snd (HandleStat h (caller u) (to_Dictionary (entries d) Map.empty)))"
  by (auto simp add: ProcessOutput_dict_def CallOutputMethod_dict_def AddOutput_dict_def
      goCallHandleStatFunction_def dict_result_def Let_def split: option.split prod.split)

lemma ProcessOutput_spec_fields:
  "handler (ProcessOutput_spec s u) = handler u"
  "items (results (ProcessOutput_spec s u)) = items (results u) @ [spec_result s]"
  "alive (ProcessOutput_spec s u) = alive u"
  "caller (ProcessOutput_spec s u) = caller u"
  by (auto simp add: ProcessOutput_spec_def CallOutputMethod_spec_def AddOutput_spec_def
      spec_result_def Let_def split: option.split prod.split)

lemma items_AddOutput_err:
  "items (AddOutput_err e r) = (if severity e = E_EMPTY then items r else items r @ [error_result e])"
  by (simp add: AddOutput_err_def error_result_def Let_def)

lemma ProcessMessage_fields:
  "handler (ProcessMessage e u) = handler u"
  "items (results (ProcessMessage e u)) =
     (case handler u of
        None \<Rightarrow> (if severity e = E_EMPTY then items (results u)
                  else items (results u) @ [error_result e])
      | Some h \<Rightarrow>
          if C_int (fst (HandleMessage h (caller u) (to_P4Message e))) = 0
             \<and> severity e \<noteq> E_EMPTY
          then items (results u) @ [error_result e] else items (results u))"
  "alive (ProcessMessage e u) =
     (case handler u of
        None \<Rightarrow> alive u
      | Some h \<Rightarrow>
          if C_int (fst (HandleMessage h (caller u) (to_P4Message e))) = 2 then 0 else alive u)"
  "caller (ProcessMessage e u) =
     (case handler u of
        None \<Rightarrow> caller u
      | Some h \<Rightarrow> snd (HandleMessage h (caller u) (to_P4Message e)))"
  by (auto simp add: ProcessMessage_def CallOutputMethod_err_def items_AddOutput_err
      goCallHandleMessageFunction_def Let_def split: option.split prod.split)

text \<open>What a callback of the engine keeps: the handler, a prefix of the collection that ends
  in a result other than a track line, and the number of records when the stat
  callback of the handler never answers 0.\<close>

lemma OutputText_plain:
  "\<not> is_track_text u data \<Longrightarrow> OutputText data u = ProcessOutput_str data False u"
  by (auto simp add: OutputText_def is_track_text_def)

lemma OutputStat_plain:
  "\<not> spec_marked values \<Longrightarrow>
     OutputStat sapi values u =
       ProcessOutput_dict \<lparr>entries = plain_dict values, last_freed = False\<rparr>
         (case GetVar values ''specdef'' of
            None \<Rightarrow> u
          | Some specDef \<Rightarrow> u\<lparr>specs := AddSpecDef (cmd u) specDef (specs u)\<rparr>)"
  by (auto simp add: OutputStat_def spec_marked_def Let_def split: option.split)

lemma handler_OutputText_loop: "handler (OutputText_loop data i p u) = handler u"
proof (induction data i p u rule: OutputText_loop.induct)
  case (1 data i p u)
  show ?case
    by (subst OutputText_loop.simps) (auto simp add: "1" Let_def ProcessOutput_str_fields)
qed

lemma handler_deliver: "handler (deliver sapi ev u) = handler u"
proof (cases ev)
  case (EvOutputStat vals)
  then show ?thesis
    by (auto simp add: OutputStat_def HandleError_def Let_def ProcessOutput_dict_fields
        ProcessOutput_spec_fields ProcessMessage_fields split: option.split prod.split)
qed (auto simp add: OutputText_def handler_OutputText_loop ProcessOutput_str_fields
      OutputBinary_def Message_def HandleError_def ProcessMessage_fields
      Resolve_def ResolveA_def split: option.split prod.split)

lemma handler_fold_deliver: "handler (fold (deliver sapi) evs u) = handler u"
  by (induction evs arbitrary: u) (simp_all add: handler_deliver)

lemma rtype_results [simp]:
  "rtype (string_result data b) = (if b then BINARY else STRING)"
  "rtype (track_result t) = TRACK"
  "rtype (dict_result d) = DICT"
  "rtype (spec_result s) = SPEC"
  "rtype (error_result e) = ERROR"
  by (simp_all add: string_result_def track_result_def dict_result_def spec_result_def
      error_result_def new_P4GoResult_def)

lemma items_AddTrack: "items (AddTrack t r) = items r @ [track_result t]"
  by (simp add: AddTrack_def track_result_def)

lemma prefix_OutputText_loop:
  assumes "pre \<noteq> []" and "rtype (last pre) \<noteq> TRACK"
  shows "prefix pre (items (results u))
    \<Longrightarrow> prefix pre (items (results (OutputText_loop data i p u)))"
proof (induction data i p u rule: OutputText_loop.induct)
  case (1 data i p u)
  from "1.prems" obtain rest where r: "items (results u) = pre @ rest"
    by (auto simp add: prefix_def)
  have fallback: "prefix pre (trailing_tracks_off (items (results (ProcessOutput_str data False u))))"
    using r trailing_tracks_off_keeps_prefix [OF assms]
    by (auto simp add: ProcessOutput_str_fields split: option.split)
  show ?case
    apply (subst OutputText_loop.simps)
    using "1.IH" "1.prems" fallback
    by (auto simp add: Let_def items_AddTrack items_DeleteTrack)
qed

lemma prefix_deliver:
  assumes "pre \<noteq> []" and "rtype (last pre) \<noteq> TRACK"
    and "prefix pre (items (results u))"
  shows "prefix pre (items (results (deliver sapi ev u)))"
proof (cases ev)
  case (EvOutputText data)
  then show ?thesis
    using assms prefix_OutputText_loop [OF assms(1,2)]
    by (auto simp add: OutputText_def ProcessOutput_str_fields split: option.split)
next
  case (EvOutputStat vals)
  then show ?thesis
    using assms(3)
    by (auto simp add: OutputStat_def HandleError_def Let_def ProcessOutput_dict_fields
        ProcessOutput_spec_fields ProcessMessage_fields split: option.split prod.split)
qed (use assms(3) in \<open>auto simp add: ProcessOutput_str_fields
      OutputBinary_def Message_def HandleError_def ProcessMessage_fields
      Resolve_def ResolveA_def split: option.split prod.split\<close>)

lemma prefix_fold_deliver:
  assumes "pre \<noteq> []" and "rtype (last pre) \<noteq> TRACK"
  shows "prefix pre (items (results u))
    \<Longrightarrow> prefix pre (items (results (fold (deliver sapi) evs u)))"
  by (induction evs arbitrary: u) (simp_all add: prefix_deliver [OF assms])

lemma count_DICT_OutputText_loop:
  "count_type DICT (results (OutputText_loop data i p u)) = count_type DICT (results u)"
proof (induction data i p u rule: OutputText_loop.induct)
  case (1 data i p u)
  have f: "filter (\<lambda>x. rtype x = DICT) (trailing_tracks_off xs) = filter (\<lambda>x. rtype x = DICT) xs"
    for xs by (rule filter_trailing_tracks_off) simp
  show ?case
    apply (subst OutputText_loop.simps)
    using "1.IH"
    by (auto simp add: Let_def count_type_def items_AddTrack items_DeleteTrack f
        ProcessOutput_str_fields split: option.split)
qed

lemma count_DICT_deliver:
  assumes "handler u = Some h" and "\<And>w d. C_int (fst (HandleStat h w d)) \<noteq> 0"
  shows "count_type DICT (results (deliver sapi ev u)) = count_type DICT (results u)"
proof (cases ev)
  case (EvOutputText data)
  then show ?thesis
    using count_DICT_OutputText_loop [of data 4 4 u]
    by (auto simp add: OutputText_def count_type_def
        ProcessOutput_str_fields split: option.split)
next
  case (EvOutputStat vals)
  then show ?thesis
    using assms
    by (auto simp add: OutputStat_def HandleError_def Let_def count_type_def
        ProcessOutput_dict_fields ProcessOutput_spec_fields ProcessMessage_fields
        split: option.split prod.split)
qed (auto simp add: count_type_def ProcessOutput_str_fields
      OutputBinary_def Message_def HandleError_def ProcessMessage_fields
      Resolve_def ResolveA_def split: option.split prod.split)

lemma count_DICT_fold_deliver:
  assumes "\<And>w d. C_int (fst (HandleStat h w d)) \<noteq> 0"
  shows "handler u = Some h
    \<Longrightarrow> count_type DICT (results (fold (deliver sapi) evs u)) = count_type DICT (results u)"
proof (induction evs arbitrary: u)
  case Nil
  then show ?case by simp
next
  case (Cons ev evs)
  have "handler (deliver sapi ev u) = Some h" using Cons.prems by (simp add: handler_deliver)
  then have "count_type DICT (results (fold (deliver sapi) evs (deliver sapi ev u)))
      = count_type DICT (results (deliver sapi ev u))"
    by (rule Cons.IH)
  also have "\<dots> = count_type DICT (results u)"
    using Cons.prems assms by (rule count_DICT_deliver)
  finally show ?case by simp
qed

subsection \<open>Output dispatch\<close>

lemma Run_ui:
  assumes "depth api = 0" and "connected api"
  shows "ui (snd (Run sapi eng c argv e api)) =
     (let u1 = fold (deliver sapi) (events eng)
                 ((ui api)\<lparr>results := empty_results, alive := 1, cmd := c\<rparr>)
      in if handler u1 \<noteq> None \<and> Dropped eng \<and> alive u1 = 0
         then u1\<lparr>specs := P4GoSpecMgr_Reset, results := empty_results, alive := 1\<rparr>
         else u1)"
  using assms
  by (auto simp add: Reset_def P4GoResults_Reset_empty Run_def RunCmd_def Disconnect_def
      ConnectOrReconnect_def IsAlive_def Let_def split: prod.split)

lemma Run_plain:
  assumes "depth api = 0" and "connected api"
    and "\<not> (handler (ui api) \<noteq> None \<and> Dropped eng
            \<and> alive (fold (deliver sapi) (events eng)
                      ((ui api)\<lparr>results := empty_results, alive := 1, cmd := c\<rparr>)) = 0)"
  shows "Run sapi eng c argv e api =
     ((True, e), api\<lparr>ui := fold (deliver sapi) (events eng)
                             ((ui api)\<lparr>results := empty_results, alive := 1, cmd := c\<rparr>)\<rparr>)"
proof -
  have a: "api\<lparr>ui := x, depth := 0\<rparr> = api\<lparr>ui := x\<rparr>" for x
    using assms(1) by (cases api) simp
  show ?thesis
    using assms
    by (auto simp add: Reset_def P4GoResults_Reset_empty Run_def RunCmd_def IsAlive_def
        handler_fold_deliver Let_def a)
qed

lemma count_DICT_empty: "count_type DICT empty_results = 0"
  by (simp add: count_type_def empty_results_def)

lemma dispatch_no_handler:
  "handler u = None \<longrightarrow>
      items (results (OutputBinary data u)) = items (results u) @ [string_result data True]
      \<and> alive (OutputBinary data u) = alive u
      \<and> (\<not> is_track_text u data \<longrightarrow>
           items (results (OutputText data u)) = items (results u) @ [string_result data False]
           \<and> alive (OutputText data u) = alive u)
      \<and> (\<not> spec_marked vals \<longrightarrow>
           items (results (OutputStat sapi vals u))
             = items (results u) @ [dict_result \<lparr>entries = plain_dict vals, last_freed = False\<rparr>]
           \<and> alive (OutputStat sapi vals u) = alive u)
      \<and> items (results (Message m u))
           = (if severity m = E_EMPTY then items (results u)
              else items (results u) @ [error_result m])
      \<and> alive (Message m u) = alive u"
  by (auto simp add: OutputBinary_def OutputText_plain OutputStat_plain Message_def
      ProcessOutput_str_fields ProcessOutput_dict_fields ProcessMessage_fields
      split: option.split)

lemma dispatch_handler:
  "handler u = Some h \<longrightarrow>
      (let ret = C_int (fst (HandleBinary h (caller u) data)); u' = OutputBinary data u
       in items (results u') =
            (if ret = P4OUTPUTHANDLER_REPORT then items (results u) @ [string_result data True]
             else items (results u))
          \<and> alive u' = (if ret = P4OUTPUTHANDLER_CANCEL then 0 else alive u)
          \<and> caller u' = snd (HandleBinary h (caller u) data))
      \<and> (\<not> is_track_text u data \<longrightarrow>
          (let ret = C_int (fst (HandleText h (caller u) data)); u' = OutputText data u
           in items (results u') =
                (if ret = P4OUTPUTHANDLER_REPORT
                 then items (results u) @ [string_result data False] else items (results u))
              \<and> alive u' = (if ret = P4OUTPUTHANDLER_CANCEL then 0 else alive u)
              \<and> caller u' = snd (HandleText h (caller u) data)))
      \<and> (\<not> spec_marked vals \<longrightarrow>
          (let d = to_Dictionary (plain_dict vals) Map.empty;
               ret = C_int (fst (HandleStat h (caller u) d));
               u' = OutputStat sapi vals u
           in items (results u') =
                (if ret = P4OUTPUTHANDLER_REPORT
                 then items (results u) @
                        [dict_result \<lparr>entries = plain_dict vals,
                                      last_freed = (plain_dict vals \<noteq> [])\<rparr>]
                 else items (results u))
              \<and> alive u' = (if ret = P4OUTPUTHANDLER_CANCEL then 0 else alive u)
              \<and> caller u' = snd (HandleStat h (caller u) d)))
      \<and> (let ret = C_int (fst (HandleMessage h (caller u) (to_P4Message m))); u' = Message m u
         in items (results u') =
              (if ret = P4OUTPUTHANDLER_REPORT \<and> severity m \<noteq> E_EMPTY
               then items (results u) @ [error_result m] else items (results u))
            \<and> alive u' = (if ret = P4OUTPUTHANDLER_CANCEL then 0 else alive u)
            \<and> caller u' = snd (HandleMessage h (caller u) (to_P4Message m)))"
  by (auto simp add: OutputBinary_def OutputText_plain OutputStat_plain Message_def
      ProcessOutput_str_fields ProcessOutput_dict_fields ProcessMessage_fields Let_def
      P4OUTPUTHANDLER_REPORT_def P4OUTPUTHANDLER_CANCEL_def split: option.split)

lemma dispatch_stat_handled:
  "handler u = Some h \<and> (\<forall>w d. fst (HandleStat h w d) = P4OUTPUTHANDLER_HANDLED) \<longrightarrow>
     count_type DICT (results (fold (deliver sapi) evs u)) = count_type DICT (results u)"
proof (intro impI, elim conjE)
  assume h: "handler u = Some h"
    and a: "\<forall>w d. fst (HandleStat h w d) = P4OUTPUTHANDLER_HANDLED"
  from a have "\<And>w d. C_int (fst (HandleStat h w d)) \<noteq> 0"
    by (simp add: C_int_handler_result)
  then show "count_type DICT (results (fold (deliver sapi) evs u)) = count_type DICT (results u)"
    using h by (rule count_DICT_fold_deliver)
qed

lemma run_stat_handled:
  "depth api = 0 \<and> connected api \<and> handler (ui api) = Some h
     \<and> (\<forall>w d. fst (HandleStat h w d) = P4OUTPUTHANDLER_HANDLED) \<longrightarrow>
   count_type DICT (results (ui (snd (Run sapi eng c argv e api)))) = 0"
proof (intro impI, elim conjE)
  assume d: "depth api = 0" and c: "connected api" and h: "handler (ui api) = Some h"
    and a: "\<forall>w d. fst (HandleStat h w d) = P4OUTPUTHANDLER_HANDLED"
  let ?u0 = "(ui api)\<lparr>results := empty_results, alive := 1, cmd := c\<rparr>"
  let ?u1 = "fold (deliver sapi) (events eng) ?u0"
  have "handler ?u0 = Some h" using h by simp
  with a dispatch_stat_handled [of ?u0 h sapi "events eng"]
  have "count_type DICT (results ?u1) = 0" by (simp add: count_DICT_empty)
  then show "count_type DICT (results (ui (snd (Run sapi eng c argv e api)))) = 0"
    by (simp add: Run_ui [OF d c] Let_def count_DICT_empty)
qed

text \<open>
  What the conversions at the Go boundary do. The answer of a handler is cut to
  32 bits, so an answer of \<open>2 ^ 32\<close> is taken for report. The conversion of a
  record frees the storage of its last pair, and a second conversion of the same
  record ends the program. The stat function frees that storage before the
  handler is asked, so the Go \<^verbatim>\<open>Run\<close> of a command in which a handler reports a
  record ends the program when it converts the record. A Go \<^verbatim>\<open>Run\<close> that is
  refused as nested converts the collection of the outstanding command.
\<close>

lemma narrowed_answer: "C_int (2 ^ 32) = P4OUTPUTHANDLER_REPORT"
  by (simp add: C_int_def P4OUTPUTHANDLER_REPORT_def signed_take_bit_eq_take_bit_minus
      take_bit_eq_mod bit_simps)

lemma conversion_frees_storage:
  "(let r = dict_result \<lparr>entries = [(''depotFile'', ''//depot/a'')], last_freed = False\<rparr>
    in to_P4Result r = Inr (DictionaryResult [''depotFile'' \<mapsto> ''//depot/a''])
       \<and> converted r
           = dict_result \<lparr>entries = [(''depotFile'', ''//depot/a'')], last_freed = True\<rparr>
       \<and> to_P4Result (converted r) = Inl DoubleFree
       \<and> converted (string_result ''text'' False) = string_result ''text'' False)"
  by (simp add: Let_def to_P4Result_def converted_def dict_result_def string_result_def
      new_P4GoResult_def to_Dictionary_def)

lemma reported_record_ends_Run:
  "(let h = \<lparr>HandleBinary = (\<lambda>w x. (P4OUTPUTHANDLER_REPORT, w)),
             HandleMessage = (\<lambda>w x. (P4OUTPUTHANDLER_REPORT, w)),
             HandleStat = (\<lambda>w x. (P4OUTPUTHANDLER_REPORT, w)),
             HandleText = (\<lambda>w x. (P4OUTPUTHANDLER_REPORT, w)),
             HandleTrack = (\<lambda>w x. (P4OUTPUTHANDLER_REPORT, w)),
             HandleSpec = (\<lambda>w x. (P4OUTPUTHANDLER_REPORT, w))\<rparr>;
        api = (new_P4GoClientApi ())\<lparr>ui := SetHandler (Some h) (new_P4GoClientUser ()),
                                      connected := True\<rparr>
    in P4_Run (fixed_SpecApi [] []) (quiet_Engine [EvOutputStat [(''depotFile'', ''//depot/a'')]])
         ''files'' [] api = Inl DoubleFree)"
  by (simp add: Let_def P4_Run_def Run_def RunCmd_def quiet_Engine_def new_P4GoClientApi_def
      new_P4GoClientUser_def SetHandler_def Reset_def P4GoResults_Reset_empty empty_results_def
      IsAlive_def OutputStat_def GetVar_def plain_dict_def ProcessOutput_dict_def
      CallOutputMethod_dict_def goCallHandleStatFunction_def AddOutput_dict_def
      new_P4GoResult_def to_P4Result_def C_int_012 P4OUTPUTHANDLER_REPORT_def)

lemma nested_P4_Run:
  "depth api \<noteq> 0 \<Longrightarrow>
     P4_Run sapi eng c args api =
       (case to_P4Results (items (results (ui api))) of
          Inl f \<Rightarrow> Inl f
        | Inr xs \<Rightarrow>
            Inr ((xs, Some (to_P4Message (Error_Set E_WARN nested_msg MakeError))),
                 api\<lparr>ui := (ui api)\<lparr>results := (results (ui api))\<lparr>items :=
                         map converted (items (results (ui api)))\<rparr>\<rparr>\<rparr>))"
  by (simp add: P4_Run_def Run_def Let_def handleCError_def GetErrorCount_def Error_Set_def
      MakeError_def split: sum.split)

text \<open>
  C2, as the code has it. A binary output, a text output that is not taken for
  track output, a record that is not taken for a spec, and a message are
  processed under the contract of the claim. Without a handler the output is
  stored (a message of empty severity never is) and \<^verbatim>\<open>alive\<close> stays. With a
  handler the method for the kind is called once, on the output, and its answer
  as a C \<^verbatim>\<open>int\<close> decides: on 0 the output is stored, on anything else it is not,
  and on 2 \<^verbatim>\<open>alive\<close> becomes 0; the answers report, handled and cancel are 0, 1
  and 2 as C \<^verbatim>\<open>int\<close>s. A record that is stored after its handler reported it is
  stored with the storage of its last pair already freed. A handler whose stat
  method always answers handled never adds a record, whatever the engine emits,
  so a command that runs with it ends with no record in the collection.
\<close>

theorem dispatch_contract:
  "(handler u = None \<longrightarrow>
      items (results (OutputBinary data u)) = items (results u) @ [string_result data True]
      \<and> alive (OutputBinary data u) = alive u
      \<and> (\<not> is_track_text u data \<longrightarrow>
           items (results (OutputText data u)) = items (results u) @ [string_result data False]
           \<and> alive (OutputText data u) = alive u)
      \<and> (\<not> spec_marked vals \<longrightarrow>
           items (results (OutputStat sapi vals u))
             = items (results u) @ [dict_result \<lparr>entries = plain_dict vals, last_freed = False\<rparr>]
           \<and> alive (OutputStat sapi vals u) = alive u)
      \<and> items (results (Message m u))
           = (if severity m = E_EMPTY then items (results u)
              else items (results u) @ [error_result m])
      \<and> alive (Message m u) = alive u)
   \<and> (handler u = Some h \<longrightarrow>
      (let ret = C_int (fst (HandleBinary h (caller u) data)); u' = OutputBinary data u
       in items (results u') =
            (if ret = P4OUTPUTHANDLER_REPORT then items (results u) @ [string_result data True]
             else items (results u))
          \<and> alive u' = (if ret = P4OUTPUTHANDLER_CANCEL then 0 else alive u)
          \<and> caller u' = snd (HandleBinary h (caller u) data))
      \<and> (\<not> is_track_text u data \<longrightarrow>
          (let ret = C_int (fst (HandleText h (caller u) data)); u' = OutputText data u
           in items (results u') =
                (if ret = P4OUTPUTHANDLER_REPORT
                 then items (results u) @ [string_result data False] else items (results u))
              \<and> alive u' = (if ret = P4OUTPUTHANDLER_CANCEL then 0 else alive u)
              \<and> caller u' = snd (HandleText h (caller u) data)))
      \<and> (\<not> spec_marked vals \<longrightarrow>
          (let d = to_Dictionary (plain_dict vals) Map.empty;
               ret = C_int (fst (HandleStat h (caller u) d));
               u' = OutputStat sapi vals u
           in items (results u') =
                (if ret = P4OUTPUTHANDLER_REPORT
                 then items (results u) @
                        [dict_result \<lparr>entries = plain_dict vals,
                                      last_freed = (plain_dict vals \<noteq> [])\<rparr>]
                 else items (results u))
              \<and> alive u' = (if ret = P4OUTPUTHANDLER_CANCEL then 0 else alive u)
              \<and> caller u' = snd (HandleStat h (caller u) d)))
      \<and> (let ret = C_int (fst (HandleMessage h (caller u) (to_P4Message m))); u' = Message m u
         in items (results u') =
              (if ret = P4OUTPUTHANDLER_REPORT \<and> severity m \<noteq> E_EMPTY
               then items (results u) @ [error_result m] else items (results u))
            \<and> alive u' = (if ret = P4OUTPUTHANDLER_CANCEL then 0 else alive u)
            \<and> caller u' = snd (HandleMessage h (caller u) (to_P4Message m))))
   \<and> (C_int P4OUTPUTHANDLER_REPORT = P4OUTPUTHANDLER_REPORT
      \<and> C_int P4OUTPUTHANDLER_HANDLED = P4OUTPUTHANDLER_HANDLED
      \<and> C_int P4OUTPUTHANDLER_CANCEL = P4OUTPUTHANDLER_CANCEL)
   \<and> (handler u = Some h \<and> (\<forall>w d. fst (HandleStat h w d) = P4OUTPUTHANDLER_HANDLED) \<longrightarrow>
        count_type DICT (results (fold (deliver sapi) evs u)) = count_type DICT (results u))
   \<and> (depth api = 0 \<and> connected api \<and> handler (ui api) = Some h
        \<and> (\<forall>w d. fst (HandleStat h w d) = P4OUTPUTHANDLER_HANDLED) \<longrightarrow>
      count_type DICT (results (ui (snd (Run sapi eng c argv e api)))) = 0)"
  by (intro conjI dispatch_no_handler dispatch_handler dispatch_stat_handled run_stat_handled)
     (simp_all add: C_int_012 P4OUTPUTHANDLER_REPORT_def
        P4OUTPUTHANDLER_HANDLED_def P4OUTPUTHANDLER_CANCEL_def)

text \<open>
  C2 as stated fails for a text output in track mode: the text below is split
  into track lines and stored, although a handler is registered whose every
  method answers handled; no method is called, the caller's count of calls
  stays 0.
\<close>

theorem track_text_bypasses_handler:
  "(let h = \<lparr>HandleBinary = (\<lambda>w x. (P4OUTPUTHANDLER_HANDLED, Suc w)),
             HandleMessage = (\<lambda>w x. (P4OUTPUTHANDLER_HANDLED, Suc w)),
             HandleStat = (\<lambda>w x. (P4OUTPUTHANDLER_HANDLED, Suc w)),
             HandleText = (\<lambda>w x. (P4OUTPUTHANDLER_HANDLED, Suc w)),
             HandleTrack = (\<lambda>w x. (P4OUTPUTHANDLER_HANDLED, Suc w)),
             HandleSpec = (\<lambda>w x. (P4OUTPUTHANDLER_HANDLED, Suc w))\<rparr>;
        u = SetHandler (Some h) ((new_P4GoClientUser (0::nat))\<lparr>track := True\<rparr>);
        u' = OutputText (''--- lapse .01s'' @ [newline]) u
    in handler u = Some h
       \<and> items (results u') = [track_result ''lapse .01s'']
       \<and> caller u' = 0)"
  by (simp add: Let_def SetHandler_def new_P4GoClientUser_def OutputText_def
      OutputText_loop.simps newline_def AddTrack_def track_result_def empty_results_def)

text \<open>
  An instance with a handler that reports text, takes every record for itself
  (and keeps it) and cancels on a message.
\<close>

theorem dispatch_contract_witness:
  "(let h = \<lparr>HandleBinary = (\<lambda>w x. (P4OUTPUTHANDLER_REPORT, w)),
             HandleMessage = (\<lambda>w x. (P4OUTPUTHANDLER_CANCEL, w)),
             HandleStat = (\<lambda>w x. (P4OUTPUTHANDLER_HANDLED, w @ [x])),
             HandleText = (\<lambda>w x. (P4OUTPUTHANDLER_REPORT, w)),
             HandleTrack = (\<lambda>w x. (P4OUTPUTHANDLER_REPORT, w)),
             HandleSpec = (\<lambda>w x. (P4OUTPUTHANDLER_REPORT, w))\<rparr>;
        u0 = new_P4GoClientUser ([] :: Dictionary list);
        u = SetHandler (Some h) u0;
        warn = \<lparr>severity = E_WARN,
                ids = [\<lparr>id_code = 554768772, id_severity = E_WARN, id_fmt = ''File(s) up-to-date.''\<rparr>],
                edict = []\<rparr>;
        evs = [EvOutputStat [(''depotFile'', ''//depot/foo'')], EvOutputText ''text'',
               EvOutputStat [(''depotFile'', ''//depot/bar'')]];
        api = (new_P4GoClientApi ([] :: Dictionary list))\<lparr>ui := u, connected := True\<rparr>;
        after = ui (snd (Run (fixed_SpecApi [] []) (quiet_Engine evs) ''files'' [] MakeError api))
    in handler u0 = None \<and> handler u = Some h
       \<and> items (results (OutputText ''text'' u0)) = [string_result ''text'' False]
       \<and> items (results (OutputStat (fixed_SpecApi [] []) [(''depotFile'', ''//depot/foo'')] u0))
            = [dict_result \<lparr>entries = [(''depotFile'', ''//depot/foo'')], last_freed = False\<rparr>]
       \<and> items (results (Message warn u0)) = [error_result warn]
       \<and> items (results (OutputStat (fixed_SpecApi [] []) [(''depotFile'', ''//depot/foo'')] u)) = []
       \<and> caller (OutputStat (fixed_SpecApi [] []) [(''depotFile'', ''//depot/foo'')] u)
            = [[''depotFile'' \<mapsto> ''//depot/foo'']]
       \<and> items (results (OutputText ''text'' u)) = [string_result ''text'' False]
       \<and> items (results (Message warn u)) = [] \<and> alive (Message warn u) = 0
       \<and> count_type DICT (results after) = 0
       \<and> caller after = [[''depotFile'' \<mapsto> ''//depot/foo''], [''depotFile'' \<mapsto> ''//depot/bar'']])"
proof -
  let ?h = "\<lparr>HandleBinary = (\<lambda>(w :: Dictionary list) (x :: string). (P4OUTPUTHANDLER_REPORT, w)),
             HandleMessage = (\<lambda>w (x :: P4Message). (P4OUTPUTHANDLER_CANCEL, w)),
             HandleStat = (\<lambda>w x. (P4OUTPUTHANDLER_HANDLED, w @ [x])),
             HandleText = (\<lambda>w (x :: string). (P4OUTPUTHANDLER_REPORT, w)),
             HandleTrack = (\<lambda>w (x :: string). (P4OUTPUTHANDLER_REPORT, w)),
             HandleSpec = (\<lambda>w (x :: Dictionary). (P4OUTPUTHANDLER_REPORT, w))\<rparr>"
  let ?v = "new_P4GoClientUser ([] :: Dictionary list)"
  let ?hu = "SetHandler (Some ?h) ?v"
  let ?warn = "\<lparr>severity = E_WARN,
                ids = [\<lparr>id_code = 554768772, id_severity = E_WARN, id_fmt = ''File(s) up-to-date.''\<rparr>],
                edict = []\<rparr>"
  let ?foo = "[(''depotFile'', ''//depot/foo'')]"
  let ?evs = "[EvOutputStat ?foo, EvOutputText ''text'',
               EvOutputStat [(''depotFile'', ''//depot/bar'')]]"
  let ?api = "(new_P4GoClientApi ([] :: Dictionary list))\<lparr>ui := ?hu, connected := True\<rparr>"
  let ?sapi = "fixed_SpecApi [] []"
  have n: "handler ?v = None" by (simp add: new_P4GoClientUser_def)
  have s: "handler ?hu = Some ?h" by (simp add: SetHandler_def)
  have t0: "\<not> is_track_text ?v ''text''" and t: "\<not> is_track_text ?hu ''text''"
    by (simp_all add: is_track_text_def)
  have m: "\<not> spec_marked ?foo" by (simp add: spec_marked_def GetVar_def)
  have p: "plain_dict ?foo = ?foo" by (simp add: plain_dict_def)
  have q: "to_Dictionary ?foo Map.empty = [''depotFile'' \<mapsto> ''//depot/foo'']"
    by (simp add: to_Dictionary_def)
  have a: "depth ?api = 0 \<and> connected ?api \<and> handler (ui ?api) = Some ?h"
    by (simp add: new_P4GoClientApi_def SetHandler_def)
  have c: "caller ?hu = []" "caller ?v = []" "items (results ?hu) = []" "items (results ?v) = []"
    "alive ?hu = 1"
    by (simp_all add: SetHandler_def new_P4GoClientUser_def empty_results_def)
  have ca: "caller (ui (snd (Run ?sapi (quiet_Engine ?evs) ''files'' [] MakeError ?api)))
      = [[''depotFile'' \<mapsto> ''//depot/foo''], [''depotFile'' \<mapsto> ''//depot/bar'']]"
    by (simp add: Run_ui a Let_def quiet_Engine_def new_P4GoClientApi_def SetHandler_def
        new_P4GoClientUser_def OutputStat_def GetVar_def plain_dict_def ProcessOutput_dict_def
        CallOutputMethod_dict_def OutputText_def ProcessOutput_str_def CallOutputMethod_str_def
        goCallHandleStatFunction_def goCallHandleTextFunction_def to_Dictionary_def
        C_int_handler_result)
  from dispatch_contract [where u = ?v and data = "''text''" and vals = ?foo and sapi = ?sapi
      and m = ?warn and h = ?h and evs = "[]" and api = ?api and eng = "quiet_Engine ?evs"
      and c = "''files''" and argv = "[]" and e = MakeError] n t0 m p c
  have w0: "items (results (OutputText ''text'' ?v)) = [string_result ''text'' False]
      \<and> items (results (OutputStat ?sapi ?foo ?v))
          = [dict_result \<lparr>entries = ?foo, last_freed = False\<rparr>]
      \<and> items (results (Message ?warn ?v)) = [error_result ?warn]"
    by simp
  from dispatch_contract [where u = ?hu and data = "''text''" and vals = ?foo and sapi = ?sapi
      and m = ?warn and h = ?h and evs = "[]" and api = ?api and eng = "quiet_Engine ?evs"
      and c = "''files''" and argv = "[]" and e = MakeError] s t m p q c a
  have w1: "count_type DICT (results (ui (snd (Run ?sapi (quiet_Engine ?evs) ''files'' [] MakeError ?api)))) = 0
      \<and> items (results (OutputStat ?sapi ?foo ?hu)) = []
      \<and> caller (OutputStat ?sapi ?foo ?hu) = [[''depotFile'' \<mapsto> ''//depot/foo'']]
      \<and> items (results (OutputText ''text'' ?hu)) = [string_result ''text'' False]
      \<and> items (results (Message ?warn ?hu)) = [] \<and> alive (Message ?warn ?hu) = 0"
    by (simp add: Let_def C_int_012 P4OUTPUTHANDLER_REPORT_def
        P4OUTPUTHANDLER_HANDLED_def P4OUTPUTHANDLER_CANCEL_def)
  from n s w0 w1 ca show ?thesis by (simp add: Let_def)
qed

subsection \<open>Track output\<close>

text \<open>
  C4, evaluated. With track mode on and no handler, a text of one track line
  followed by an empty line reaches the rollback branch; the text is stored first,
  so \<^verbatim>\<open>DeleteTrack\<close> finds it at the end of the collection and removes nothing: the
  track line stays, before the text, and stays counted. A text whose only line
  has no newline at its end is not stored at all.
\<close>

theorem track_rollback_leaves_track:
  "(let data = ''--- a'' @ [newline, newline];
        u = OutputText data ((new_P4GoClientUser ())\<lparr>track := True\<rparr>)
    in items (results u) = [track_result ''a'', string_result data False]
       \<and> trackCount (results u) = 1 \<and> stringCount (results u) = 1)
   \<and> items (results (OutputText ''--- abc'' ((new_P4GoClientUser ())\<lparr>track := True\<rparr>))) = []"
  by (simp add: Let_def OutputText_def OutputText_loop.simps new_P4GoClientUser_def newline_def
      ProcessOutput_str_def AddOutput_str_def AddTrack_def DeleteTrack_def empty_results_def
      track_result_def string_result_def new_P4GoResult_def)

subsection \<open>Messages and the error of a command\<close>

lemma message_in_place:
  "(handler u = None
      \<or> (\<exists>h. handler u = Some h
             \<and> C_int (fst (HandleMessage h (caller u) (to_P4Message m))) = P4OUTPUTHANDLER_REPORT))
     \<and> severity m \<noteq> E_EMPTY \<longrightarrow>
   items (results (Message m u)) = items (results u) @ [error_result m]
   \<and> prefix (items (results u) @ [error_result m])
        (items (results (fold (deliver sapi) evs (Message m u))))"
proof (intro impI, elim conjE)
  assume a: "handler u = None
      \<or> (\<exists>h. handler u = Some h
             \<and> C_int (fst (HandleMessage h (caller u) (to_P4Message m))) = P4OUTPUTHANDLER_REPORT)"
    and s: "severity m \<noteq> E_EMPTY"
  let ?pre = "items (results u) @ [error_result m]"
  from a s have i: "items (results (Message m u)) = ?pre"
    by (auto simp add: Message_def ProcessMessage_fields P4OUTPUTHANDLER_REPORT_def)
  have "prefix ?pre (items (results (fold (deliver sapi) evs (Message m u))))"
    by (rule prefix_fold_deliver) (simp_all add: i)
  with i show "items (results (Message m u)) = ?pre
     \<and> prefix ?pre (items (results (fold (deliver sapi) evs (Message m u))))" by simp
qed

lemma message_in_place_Run:
  "depth api = 0 \<and> connected api \<and> events eng = evsa @ EvMessage m # evsb
     \<and> severity m \<noteq> E_EMPTY \<longrightarrow>
     (let u0 = (ui api)\<lparr>results := empty_results, alive := 1, cmd := c\<rparr>;
          ua = fold (deliver sapi) evsa u0;
          u1 = fold (deliver sapi) (events eng) u0
      in handler (ui api) = None
           \<or> (\<exists>h. handler (ui api) = Some h
                  \<and> C_int (fst (HandleMessage h (caller ua) (to_P4Message m)))
                      = P4OUTPUTHANDLER_REPORT
                  \<and> \<not> (Dropped eng \<and> alive u1 = 0)) \<longrightarrow>
         prefix (items (results ua) @ [error_result m])
           (items (results (ui (snd (Run sapi eng c args e api))))))"
proof (intro impI, elim conjE)
  assume d: "depth api = 0" and c: "connected api"
    and ev: "events eng = evsa @ EvMessage m # evsb" and s: "severity m \<noteq> E_EMPTY"
  let ?u0 = "(ui api)\<lparr>results := empty_results, alive := 1, cmd := c\<rparr>"
  let ?ua = "fold (deliver sapi) evsa ?u0"
  let ?u1 = "fold (deliver sapi) (events eng) ?u0"
  have ha: "handler ?ua = handler (ui api)" by (simp add: handler_fold_deliver)
  have u1: "?u1 = fold (deliver sapi) evsb (Message m ?ua)" by (simp add: ev)
  have "prefix (items (results ?ua) @ [error_result m])
           (items (results (ui (snd (Run sapi eng c args e api)))))"
    if h: "handler (ui api) = None
           \<or> (\<exists>h. handler (ui api) = Some h
                  \<and> C_int (fst (HandleMessage h (caller ?ua) (to_P4Message m)))
                      = P4OUTPUTHANDLER_REPORT
                  \<and> \<not> (Dropped eng \<and> alive ?u1 = 0))"
  proof -
    from h ha have a: "handler ?ua = None
        \<or> (\<exists>h. handler ?ua = Some h
               \<and> C_int (fst (HandleMessage h (caller ?ua) (to_P4Message m)))
                   = P4OUTPUTHANDLER_REPORT)"
      by auto
    with s message_in_place [of ?ua m sapi evsb]
    have p: "prefix (items (results ?ua) @ [error_result m]) (items (results ?u1))"
      by (simp only: u1) blast
    from h have "\<not> (handler (ui api) \<noteq> None \<and> Dropped eng \<and> alive ?u1 = 0)" by auto
    then have "Run sapi eng c args e api = ((True, e), api\<lparr>ui := ?u1\<rparr>)"
      by (intro Run_plain d c)
    with p show ?thesis by simp
  qed
  then show "let u0 = ?u0; ua = fold (deliver sapi) evsa u0;
          u1 = fold (deliver sapi) (events eng) u0
      in handler (ui api) = None
           \<or> (\<exists>h. handler (ui api) = Some h
                  \<and> C_int (fst (HandleMessage h (caller ua) (to_P4Message m)))
                      = P4OUTPUTHANDLER_REPORT
                  \<and> \<not> (Dropped eng \<and> alive u1 = 0)) \<longrightarrow>
         prefix (items (results ua) @ [error_result m])
           (items (results (ui (snd (Run sapi eng c args e api)))))"
    unfolding Let_def by blast
qed

lemma message_as_data:
  "to_P4Result (error_result m) = Inr (P4MessageResult (result_P4Message m))
   \<and> msg_severity (result_P4Message m) = severity m"
  by (simp add: to_P4Result_def error_result_def new_P4GoResult_def result_P4Message_def)

lemma handleCError_MakeError: "handleCError MakeError = None"
  by (simp add: handleCError_def GetErrorCount_def MakeError_def)

lemma run_error_is_own:
  "depth api = 0 \<and> connected api \<longrightarrow>
     (let u1 = fold (deliver sapi) (events eng)
                 ((ui api)\<lparr>results := empty_results, alive := 1, cmd := c\<rparr>)
      in if handler (ui api) \<noteq> None \<and> Dropped eng \<and> alive u1 = 0
         then items (results (ui (snd (Run sapi eng c args e api)))) = []
         else Run sapi eng c args e api = ((True, e), api\<lparr>ui := u1\<rparr>))"
proof (intro impI, elim conjE)
  assume d: "depth api = 0" and c: "connected api"
  let ?u1 = "fold (deliver sapi) (events eng) ((ui api)\<lparr>results := empty_results, alive := 1, cmd := c\<rparr>)"
  have h: "handler ?u1 = handler (ui api)" by (simp add: handler_fold_deliver)
  show "let u1 = ?u1
      in if handler (ui api) \<noteq> None \<and> Dropped eng \<and> alive u1 = 0
         then items (results (ui (snd (Run sapi eng c args e api)))) = []
         else Run sapi eng c args e api = ((True, e), api\<lparr>ui := u1\<rparr>)"
  proof (cases "handler (ui api) \<noteq> None \<and> Dropped eng \<and> alive ?u1 = 0")
    case True
    with h have "ui (snd (Run sapi eng c args e api))
        = ?u1\<lparr>specs := P4GoSpecMgr_Reset, results := empty_results, alive := 1\<rparr>"
      by (simp add: Run_ui [OF d c] Let_def)
    with True show ?thesis by (simp add: Let_def empty_results_def)
  next
    case False
    then have "Run sapi eng c args e api = ((True, e), api\<lparr>ui := ?u1\<rparr>)"
      by (intro Run_plain d c)
    with False show ?thesis by (auto simp add: Let_def)
  qed
qed

lemma P4_Run_plain:
  "depth api = 0 \<and> connected api \<longrightarrow>
     (let u1 = fold (deliver sapi) (events eng)
                 ((ui api)\<lparr>results := empty_results, alive := 1, cmd := c\<rparr>);
          res = results u1
      in \<not> (handler (ui api) \<noteq> None \<and> Dropped eng \<and> alive u1 = 0) \<longrightarrow>
         P4_Run sapi eng c args api =
           (case to_P4Results (items res) of
              Inl f \<Rightarrow> Inl f
            | Inr xs \<Rightarrow>
                Inr ((xs, None),
                     api\<lparr>ui := u1\<lparr>results := res\<lparr>items := map converted (items res)\<rparr>\<rparr>\<rparr>)))"
proof (intro impI, elim conjE)
  assume d: "depth api = 0" and c: "connected api"
  let ?u1 = "fold (deliver sapi) (events eng) ((ui api)\<lparr>results := empty_results, alive := 1, cmd := c\<rparr>)"
  have "P4_Run sapi eng c args api =
           (case to_P4Results (items (results ?u1)) of
              Inl f \<Rightarrow> Inl f
            | Inr xs \<Rightarrow>
                Inr ((xs, None),
                     api\<lparr>ui := ?u1\<lparr>results := (results ?u1)\<lparr>items := map converted (items (results ?u1))\<rparr>\<rparr>\<rparr>))"
    if h: "\<not> (handler (ui api) \<noteq> None \<and> Dropped eng \<and> alive ?u1 = 0)"
  proof -
    from h have "Run sapi eng c args MakeError api = ((True, MakeError), api\<lparr>ui := ?u1\<rparr>)"
      by (intro Run_plain d c)
    then show ?thesis
      by (simp add: P4_Run_def Let_def handleCError_MakeError split: sum.split)
  qed
  then show "let u1 = ?u1; res = results u1
      in \<not> (handler (ui api) \<noteq> None \<and> Dropped eng \<and> alive u1 = 0) \<longrightarrow>
         P4_Run sapi eng c args api =
           (case to_P4Results (items res) of
              Inl f \<Rightarrow> Inl f
            | Inr xs \<Rightarrow>
                Inr ((xs, None),
                     api\<lparr>ui := u1\<lparr>results := res\<lparr>items := map converted (items res)\<rparr>\<rparr>\<rparr>))"
    unfolding Let_def by blast
qed

lemma to_P4Results_nth:
  "to_P4Results rs = Inr xs \<longrightarrow>
     length xs = length rs \<and> (\<forall>i < length rs. to_P4Result (rs ! i) = Inr (xs ! i))"
proof (induction rs arbitrary: xs)
  case Nil
  then show ?case by auto
next
  case (Cons r rs)
  show ?case
  proof
    assume a: "to_P4Results (r # rs) = Inr xs"
    then obtain x ys where x: "to_P4Result r = Inr x" and ys: "to_P4Results rs = Inr ys"
      and xs: "xs = x # ys"
      by (auto split: sum.splits)
    from Cons.IH [of ys] ys have l: "length ys = length rs"
      and n: "\<forall>i < length rs. to_P4Result (rs ! i) = Inr (ys ! i)" by auto
    show "length xs = length (r # rs)
        \<and> (\<forall>i < length (r # rs). to_P4Result ((r # rs) ! i) = Inr (xs ! i))"
      using x xs l n by (auto simp add: nth_Cons split: nat.split)
  qed
qed

text \<open>
  C3, as the code has it. A message of severity other than empty that no handler
  takes away (none is registered, or the message method answers report) is
  stored at the end of the collection as it arrives, and no later callback of
  the command moves or removes it: the collection that \<^verbatim>\<open>Run\<close> leaves begins with
  the results of the callbacks before the message, then the message, unless the
  session reconnects. Converted for the caller it is a message result with its
  severity. \<^verbatim>\<open>Run\<close> makes no error of it. A \<^verbatim>\<open>Run\<close> that starts a
  command (depth 0, connected) gives back the error object as it got it and the
  session with what the callbacks made of the emptied collection, whatever the
  severities of the messages in the output; only when a handler cancelled the
  command and the connection is dropped does it disconnect, which empties the
  collection, and reconnect. The error object the Go \<^verbatim>\<open>Run\<close> passes is fresh, and
  a fresh error object is no Go error: unless the session reconnects, the Go
  \<^verbatim>\<open>Run\<close> returns a nil error and, unless the conversion of a result fails, the
  converted results, one for each result of the collection in its position.
\<close>

theorem failed_message_is_data:
  "((handler u = None
      \<or> (\<exists>h. handler u = Some h
             \<and> C_int (fst (HandleMessage h (caller u) (to_P4Message m))) = P4OUTPUTHANDLER_REPORT))
     \<and> severity m \<noteq> E_EMPTY \<longrightarrow>
   items (results (Message m u)) = items (results u) @ [error_result m]
   \<and> prefix (items (results u) @ [error_result m])
        (items (results (fold (deliver sapi) evs (Message m u)))))
   \<and> (to_P4Result (error_result m) = Inr (P4MessageResult (result_P4Message m))
      \<and> msg_severity (result_P4Message m) = severity m)
   \<and> (depth api = 0 \<and> connected api \<and> events eng = evsa @ EvMessage m # evsb
        \<and> severity m \<noteq> E_EMPTY \<longrightarrow>
       (let u0 = (ui api)\<lparr>results := empty_results, alive := 1, cmd := c\<rparr>;
            ua = fold (deliver sapi) evsa u0;
            u1 = fold (deliver sapi) (events eng) u0
        in handler (ui api) = None
             \<or> (\<exists>h. handler (ui api) = Some h
                    \<and> C_int (fst (HandleMessage h (caller ua) (to_P4Message m)))
                        = P4OUTPUTHANDLER_REPORT
                    \<and> \<not> (Dropped eng \<and> alive u1 = 0)) \<longrightarrow>
           prefix (items (results ua) @ [error_result m])
             (items (results (ui (snd (Run sapi eng c args e api)))))))
   \<and> (depth api = 0 \<and> connected api \<longrightarrow>
       (let u1 = fold (deliver sapi) (events eng)
                   ((ui api)\<lparr>results := empty_results, alive := 1, cmd := c\<rparr>)
        in if handler (ui api) \<noteq> None \<and> Dropped eng \<and> alive u1 = 0
           then items (results (ui (snd (Run sapi eng c args e api)))) = []
           else Run sapi eng c args e api = ((True, e), api\<lparr>ui := u1\<rparr>)))
   \<and> handleCError MakeError = None
   \<and> (depth api = 0 \<and> connected api \<longrightarrow>
       (let u1 = fold (deliver sapi) (events eng)
                   ((ui api)\<lparr>results := empty_results, alive := 1, cmd := c\<rparr>);
            res = results u1
        in \<not> (handler (ui api) \<noteq> None \<and> Dropped eng \<and> alive u1 = 0) \<longrightarrow>
           P4_Run sapi eng c args api =
             (case to_P4Results (items res) of
                Inl f \<Rightarrow> Inl f
              | Inr xs \<Rightarrow>
                  Inr ((xs, None),
                       api\<lparr>ui := u1\<lparr>results := res\<lparr>items := map converted (items res)\<rparr>\<rparr>\<rparr>))))
   \<and> (to_P4Results rs = Inr xs \<longrightarrow>
        length xs = length rs \<and> (\<forall>i < length rs. to_P4Result (rs ! i) = Inr (xs ! i)))"
  by (intro conjI message_in_place message_in_place_Run run_error_is_own P4_Run_plain
      to_P4Results_nth
      handleCError_MakeError)
     (simp_all add: message_as_data)

text \<open>
  C3 as stated fails: for the output of a record, an info message, a record and
  a failed message, the Go \<^verbatim>\<open>Run\<close> returns the four results in that order and
  a nil error.
\<close>

theorem failed_message_no_run_error:
  "(let info = \<lparr>severity = E_INFO,
                ids = [\<lparr>id_code = 268435456, id_severity = E_INFO, id_fmt = ''//depot/a - ok''\<rparr>],
                edict = []\<rparr>;
        failed = \<lparr>severity = E_FAILED,
                  ids = [\<lparr>id_code = 805705769, id_severity = E_FAILED,
                         id_fmt = ''//depot/c - no such file(s).''\<rparr>],
                  edict = []\<rparr>;
        evs = [EvOutputStat [(''depotFile'', ''//depot/a'')], EvMessage info,
               EvOutputStat [(''depotFile'', ''//depot/b'')], EvMessage failed];
        api = (new_P4GoClientApi ())\<lparr>connected := True\<rparr>
    in map_sum id fst (P4_Run (fixed_SpecApi [] []) (quiet_Engine evs) ''files'' [] api) =
         Inr ([DictionaryResult [''depotFile'' \<mapsto> ''//depot/a''],
               P4MessageResult (result_P4Message info),
               DictionaryResult [''depotFile'' \<mapsto> ''//depot/b''],
               P4MessageResult (result_P4Message failed)],
              None))"
  by (simp add: Let_def P4_Run_def Run_def RunCmd_def quiet_Engine_def new_P4GoClientApi_def
      new_P4GoClientUser_def Reset_def P4GoResults_Reset_empty empty_results_def IsAlive_def
      OutputStat_def GetVar_def plain_dict_def ProcessOutput_dict_def AddOutput_dict_def
      Message_def ProcessMessage_def AddOutput_err_def new_P4GoResult_def
      to_P4Result_def to_Dictionary_def handleCError_def GetErrorCount_def MakeError_def)

text \<open>
  An instance: a failed message stays first in the collection under the
  callbacks that follow it, and the command that emits one returns no error.
\<close>

theorem failed_message_is_data_witness:
  "(let failed = \<lparr>severity = E_FAILED,
                  ids = [\<lparr>id_code = 805705769, id_severity = E_FAILED,
                         id_fmt = ''//depot/c - no such file(s).''\<rparr>],
                  edict = []\<rparr>;
        evs = [EvOutputStat [(''depotFile'', ''//depot/a'')], EvMessage failed];
        v = new_P4GoClientUser ();
        api = (new_P4GoClientApi ())\<lparr>connected := True\<rparr>;
        rs = [dict_result \<lparr>entries = [(''depotFile'', ''//depot/a'')], last_freed = False\<rparr>,
              error_result failed];
        xs = [DictionaryResult [''depotFile'' \<mapsto> ''//depot/a''],
              P4MessageResult (result_P4Message failed)]
    in handler v = None \<and> severity failed \<noteq> E_EMPTY
       \<and> depth api = 0 \<and> connected api \<and> handler (ui api) = None
       \<and> to_P4Results rs = Inr xs
       \<and> items (results (Message failed v)) = [error_result failed]
       \<and> prefix [error_result failed]
            (items (results (fold (deliver (fixed_SpecApi [] []))
               [EvOutputText ''--- x'', EvOutputStat [(''depotFile'', ''//depot/b'')]]
               (Message failed v))))
       \<and> msg_severity (result_P4Message failed) = E_FAILED
       \<and> fst (Run (fixed_SpecApi [] []) (quiet_Engine evs) ''files'' [] MakeError api)
           = (True, MakeError)
       \<and> items (results (ui (snd (Run (fixed_SpecApi [] []) (quiet_Engine evs) ''files'' []
                                      MakeError api)))) = rs
       \<and> prefix rs (items (results (ui (snd (Run (fixed_SpecApi [] []) (quiet_Engine evs)
                                                ''files'' [] MakeError api)))))
       \<and> map_sum id fst (P4_Run (fixed_SpecApi [] []) (quiet_Engine evs) ''files'' [] api)
           = Inr (xs, None)
       \<and> to_P4Result (rs ! 1) = Inr (xs ! 1))"
proof -
  let ?failed = "\<lparr>severity = E_FAILED,
                  ids = [\<lparr>id_code = 805705769, id_severity = E_FAILED,
                         id_fmt = ''//depot/c - no such file(s).''\<rparr>],
                  edict = []\<rparr>"
  let ?evs = "[EvOutputStat [(''depotFile'', ''//depot/a'')], EvMessage ?failed]"
  let ?v = "new_P4GoClientUser ()"
  let ?api = "(new_P4GoClientApi ())\<lparr>connected := True\<rparr>"
  let ?sapi = "fixed_SpecApi [] []"
  let ?rs = "[dict_result \<lparr>entries = [(''depotFile'', ''//depot/a'')], last_freed = False\<rparr>,
              error_result ?failed]"
  let ?xs = "[DictionaryResult [''depotFile'' \<mapsto> ''//depot/a''],
              P4MessageResult (result_P4Message ?failed)]"
  let ?u1 = "fold (deliver ?sapi) (events (quiet_Engine ?evs))
               ((ui ?api)\<lparr>results := empty_results, alive := 1, cmd := ''files''\<rparr>)"
  have n: "handler ?v = None" "items (results ?v) = []"
    by (simp_all add: new_P4GoClientUser_def empty_results_def)
  have s: "severity ?failed \<noteq> E_EMPTY" by simp
  have a: "depth ?api = 0 \<and> connected ?api \<and> handler (ui ?api) = None"
    by (simp add: new_P4GoClientApi_def new_P4GoClientUser_def)
  have r: "to_P4Results ?rs = Inr ?xs"
    by (simp add: to_P4Result_def dict_result_def error_result_def new_P4GoResult_def
        to_Dictionary_def)
  have i: "items (results ?u1) = ?rs"
    by (simp add: quiet_Engine_def new_P4GoClientApi_def new_P4GoClientUser_def
        empty_results_def OutputStat_def GetVar_def plain_dict_def ProcessOutput_dict_def
        AddOutput_dict_def Message_def ProcessMessage_def AddOutput_err_def new_P4GoResult_def
        dict_result_def error_result_def)
  note t = failed_message_is_data [where u = ?v and m = ?failed and sapi = ?sapi
      and evs = "[EvOutputText ''--- x'', EvOutputStat [(''depotFile'', ''//depot/b'')]]"
      and api = ?api and eng = "quiet_Engine ?evs" and c = "''files''" and args = "[]"
      and e = MakeError and rs = ?rs and xs = ?xs
      and evsa = "[EvOutputStat [(''depotFile'', ''//depot/a'')]]" and evsb = "[]"]
  from t n s have p1: "items (results (Message ?failed ?v)) = [error_result ?failed]
       \<and> prefix [error_result ?failed]
            (items (results (fold (deliver ?sapi)
               [EvOutputText ''--- x'', EvOutputStat [(''depotFile'', ''//depot/b'')]]
               (Message ?failed ?v))))
       \<and> msg_severity (result_P4Message ?failed) = E_FAILED"
    by simp
  from t a have p2: "Run ?sapi (quiet_Engine ?evs) ''files'' [] MakeError ?api
      = ((True, MakeError), ?api\<lparr>ui := ?u1\<rparr>)"
    by (simp add: Let_def)
  have e5: "depth ?api = 0 \<and> connected ?api" using a by simp
  have nr: "\<not> (handler (ui ?api) \<noteq> None \<and> Dropped (quiet_Engine ?evs) \<and> alive ?u1 = 0)"
    using a by simp
  note t3 = t [THEN conjunct2, THEN conjunct2, THEN conjunct1]
  note t5 = t [THEN conjunct2, THEN conjunct2, THEN conjunct2, THEN conjunct2, THEN conjunct2,
               THEN conjunct1]
  have p3: "P4_Run ?sapi (quiet_Engine ?evs) ''files'' [] ?api =
       (case to_P4Results (items (results ?u1)) of
          Inl f \<Rightarrow> Inl f
        | Inr xs \<Rightarrow>
            Inr ((xs, None),
                 ?api\<lparr>ui := ?u1\<lparr>results := (results ?u1)\<lparr>items := map converted (items (results ?u1))\<rparr>\<rparr>\<rparr>))"
    by (rule mp [OF mp [OF t5 [unfolded Let_def] e5] nr])
  from t r have p4: "to_P4Result (?rs ! 1) = Inr (?xs ! 1)" by simp
  let ?u0 = "(ui ?api)\<lparr>results := empty_results, alive := 1, cmd := ''files''\<rparr>"
  let ?ua = "fold (deliver ?sapi) [EvOutputStat [(''depotFile'', ''//depot/a'')]] ?u0"
  have h1: "depth ?api = 0 \<and> connected ?api
      \<and> events (quiet_Engine ?evs)
          = [EvOutputStat [(''depotFile'', ''//depot/a'')]] @ EvMessage ?failed # []
      \<and> severity ?failed \<noteq> E_EMPTY"
    using a by (simp add: quiet_Engine_def)
  have h2: "handler (ui ?api) = None" using a by simp
  have ia: "items (results ?ua)
      = [dict_result \<lparr>entries = [(''depotFile'', ''//depot/a'')], last_freed = False\<rparr>]"
    by (simp add: new_P4GoClientApi_def new_P4GoClientUser_def
        empty_results_def OutputStat_def GetVar_def plain_dict_def ProcessOutput_dict_def
        AddOutput_dict_def new_P4GoResult_def dict_result_def)
  have "prefix (items (results ?ua) @ [error_result ?failed])
      (items (results (ui (snd (Run ?sapi (quiet_Engine ?evs) ''files'' [] MakeError ?api)))))"
    by (rule mp [OF mp [OF t3 [unfolded Let_def] h1] disjI1 [OF h2]])
  then have p5: "prefix ?rs
      (items (results (ui (snd (Run ?sapi (quiet_Engine ?evs) ''files'' [] MakeError ?api)))))"
    by (simp only: ia append.simps)
  have q2: "fst (Run ?sapi (quiet_Engine ?evs) ''files'' [] MakeError ?api) = (True, MakeError)"
    "items (results (ui (snd (Run ?sapi (quiet_Engine ?evs) ''files'' [] MakeError ?api)))) = ?rs"
  proof -
    have sel: "ui (?api\<lparr>ui := ?u1\<rparr>) = ?u1" by simp
    show "fst (Run ?sapi (quiet_Engine ?evs) ''files'' [] MakeError ?api) = (True, MakeError)"
      by (simp only: p2 fst_conv)
    show "items (results (ui (snd (Run ?sapi (quiet_Engine ?evs) ''files'' [] MakeError ?api)))) = ?rs"
      by (simp only: p2 snd_conv sel i)
  qed
  have q3: "map_sum id fst (P4_Run ?sapi (quiet_Engine ?evs) ''files'' [] ?api) = Inr (?xs, None)"
    by (simp only: p3 i r sum.case map_sum.simps fst_conv)
  show ?thesis
    unfolding Let_def
    using n(1) s a r p1 q2 p5 q3 p4 by (intro conjI) simp_all
qed

subsection \<open>Extra tags\<close>

text \<open>The digits of a number give the number back, so different numbers have different
  digits.\<close>

lemma GetVar_SetVar: "GetVar (SetVar k v d) k' = (if k' = k then Some v else GetVar d k')"
  by (induction d) (auto simp add: GetVar_def)

lemma extraTags_keeps:
  "GetVar ex var = Some val \<Longrightarrow> GetVar rec var = Some val
     \<Longrightarrow> GetVar (extraTags n i rec ex) var = Some val"
proof (induction n arbitrary: i ex)
  case 0
  then show ?case by simp
next
  case (Suc n)
  show ?case
  proof (cases "GetVar rec (''extraTag'' @ decimal i)")
    case None
    with Suc.prems show ?thesis by simp
  next
    case (Some v)
    show ?thesis
    proof (cases "GetVar rec v")
      case None
      with Some Suc show ?thesis by simp
    next
      case (Some x)
      have "GetVar (SetVar v x ex) var = Some val"
        using Suc.prems Some by (auto simp add: GetVar_SetVar)
      then have "GetVar (extraTags n (Suc i) rec (SetVar v x ex)) var = Some val"
        using Suc.IH Suc.prems(2) by blast
      with Some \<open>GetVar rec (''extraTag'' @ decimal i) = Some v\<close> show ?thesis by simp
    qed
  qed
qed

lemma digit_value: "d < 10 \<Longrightarrow> of_char (''0123456789'' ! d) = (48 + d :: nat)"
proof -
  assume "d < 10"
  then have "d \<in> {0, 1, 2, 3, 4, 5, 6, 7, 8, 9}" by auto
  then show ?thesis by auto
qed

lemma digits_value_digit_chars: "i < f \<Longrightarrow> digits_value (digit_chars f i) = i"
proof (induction f arbitrary: i)
  case 0
  then show ?case by simp
next
  case (Suc f)
  show ?case
  proof (cases "i < 10")
    case True
    then show ?thesis by (simp add: digits_value_def digit_value)
  next
    case False
    then have "i div 10 < f" using Suc.prems by simp
    then have "digits_value (digit_chars f (i div 10)) = i div 10" by (rule Suc.IH)
    moreover have "of_char (''0123456789'' ! (i mod 10)) = (48 + i mod 10 :: nat)"
      by (rule digit_value) simp
    ultimately show ?thesis using False by (simp add: digits_value_def)
  qed
qed

lemma decimal_inj: "decimal i = decimal j \<Longrightarrow> i = j"
  by (metis decimal_def digits_value_digit_chars lessI)

lemma extraTag_inj: "inj (\<lambda>i. ''extraTag'' @ decimal i)"
  by (auto simp add: inj_def dest: decimal_inj)

text \<open>
  A record with \<open>n\<close> pairs cannot have all of \<^verbatim>\<open>extraTag0\<close> to \<^verbatim>\<open>extraTagn\<close>: the loop
  over the extra tags stops at an index of at most \<open>n\<close>.
\<close>

lemma extraTag_missing:
  "\<exists>k \<le> length rec. GetVar rec (''extraTag'' @ decimal k) = None"
proof (rule ccontr)
  assume "\<not> ?thesis"
  then have all: "\<And>k. k \<le> length rec \<Longrightarrow> (''extraTag'' @ decimal k) \<in> fst ` set rec"
    by (auto simp add: GetVar_def map_of_eq_None_iff)
  let ?f = "\<lambda>i. ''extraTag'' @ decimal i"
  have "?f ` {0 .. length rec} \<subseteq> fst ` set rec" using all by auto
  then have "card (?f ` {0 .. length rec}) \<le> card (fst ` set rec)"
    by (rule card_mono [rotated]) simp
  moreover have "card (?f ` {0 .. length rec}) = Suc (length rec)"
    using extraTag_inj by (simp add: card_image inj_on_def inj_def)
  moreover have "card (fst ` set rec) \<le> length rec"
    by (metis card_image_le card_length le_trans List.finite_set)
  ultimately show False by simp
qed

text \<open>Once the loop has enough steps to reach the missing tag, more steps change nothing.\<close>

lemma extraTags_fuel:
  "GetVar rec (''extraTag'' @ decimal k) = None \<Longrightarrow> i \<le> k \<Longrightarrow> k - i < n \<Longrightarrow> k - i < m
     \<Longrightarrow> extraTags n i rec ex = extraTags m i rec ex"
proof (induction n arbitrary: i m ex)
  case 0
  then show ?case by simp
next
  case (Suc n)
  from Suc.prems(4) obtain m' where m: "m = Suc m'" by (cases m) auto
  show ?case
  proof (cases "i = k")
    case True
    with Suc.prems(1) m show ?thesis by simp
  next
    case False
    with Suc.prems m have "Suc i \<le> k" "k - Suc i < n" "k - Suc i < m'" by auto
    then have "\<And>ex. extraTags n (Suc i) rec ex = extraTags m' (Suc i) rec ex"
      using Suc.IH Suc.prems(1) by blast
    with m show ?thesis by (simp split: option.split)
  qed
qed

lemma extraTags_enough:
  "length rec < n \<Longrightarrow> extraTags n 0 rec ex = extraTags (Suc (length rec)) 0 rec ex"
proof -
  assume n: "length rec < n"
  obtain k where k: "k \<le> length rec" "GetVar rec (''extraTag'' @ decimal k) = None"
    using extraTag_missing by blast
  show ?thesis
    by (rule extraTags_fuel [OF k(2)]) (use k n in auto)
qed

text \<open>Every extra tag the loop passes is stored with the value of its target.\<close>

lemma extraTags_stores:
  "\<forall>j. i \<le> j \<and> j \<le> k \<longrightarrow> GetVar rec (''extraTag'' @ decimal j) \<noteq> None
     \<Longrightarrow> i \<le> k \<Longrightarrow> k - i < n
     \<Longrightarrow> GetVar rec (''extraTag'' @ decimal k) = Some var \<Longrightarrow> GetVar rec var = Some val
     \<Longrightarrow> GetVar (extraTags n i rec ex) var = Some val"
proof (induction n arbitrary: i ex)
  case 0
  then show ?case by simp
next
  case (Suc n)
  show ?case
  proof (cases "i = k")
    case True
    have "GetVar (SetVar var val ex) var = Some val" by (simp add: GetVar_SetVar)
    then have "GetVar (extraTags n (Suc i) rec (SetVar var val ex)) var = Some val"
      using Suc.prems(5) by (rule extraTags_keeps)
    with True Suc.prems(4,5) show ?thesis by simp
  next
    case False
    with Suc.prems have r: "\<forall>j. Suc i \<le> j \<and> j \<le> k \<longrightarrow> GetVar rec (''extraTag'' @ decimal j) \<noteq> None"
      "Suc i \<le> k" "k - Suc i < n" by auto
    from Suc.prems(1,2) obtain v where v: "GetVar rec (''extraTag'' @ decimal i) = Some v" by auto
    have "\<And>ex. GetVar (extraTags n (Suc i) rec ex) var = Some val"
      using Suc.IH [OF r Suc.prems(4,5)] .
    with v show ?thesis by (simp split: option.split)
  qed
qed

lemma extraTags_captured:
  assumes "\<forall>j \<le> k. GetVar rec (''extraTag'' @ decimal j) \<noteq> None"
    and "GetVar rec (''extraTag'' @ decimal k) = Some var" and "GetVar rec var = Some val"
  shows "GetVar (extraTags (Suc (length rec)) 0 rec []) var = Some val"
proof -
  obtain k' where k': "k' \<le> length rec" "GetVar rec (''extraTag'' @ decimal k') = None"
    using extraTag_missing by blast
  with assms(1) have "k < k'" by (metis not_le_imp_less)
  with k' have "k - 0 < Suc (length rec)" by simp
  with assms show ?thesis by (intro extraTags_stores [where k = k]) auto
qed

text \<open>
  C7, on the code. When \<^verbatim>\<open>StrDictToSpec\<close> converts a record, the dictionary of
  the spec is what the API parses from the form it rendered, and nothing else.
  Each extra tag the record carries in sequence (\<^verbatim>\<open>extraTag0\<close>, \<^verbatim>\<open>extraTag1\<close>, ...)
  is captured: \<^verbatim>\<open>extras\<close> holds its target variable with the target's value. But
  \<^verbatim>\<open>extras\<close> is never read: the pairs \<^verbatim>\<open>SpecDataGetKeyPair\<close> iterates and the
  dictionary the Go \<^verbatim>\<open>Run\<close> builds are those of the parsed table, the same
  whatever \<^verbatim>\<open>extras\<close> holds.
\<close>

theorem extras_captured_not_exposed:
  assumes "StrDictToSpec sapi rec specDef = Some sp"
  shows "Dict sp = fst (Spec_ParseNoValid sapi specDef (Spec_Format sapi specDef rec)
                          (Spec_new sapi specDef MakeError))
    \<and> (\<forall>k var val.
          (\<forall>j \<le> k. GetVar rec (''extraTag'' @ decimal j) \<noteq> None)
          \<and> GetVar rec (''extraTag'' @ decimal k) = Some var \<and> GetVar rec var = Some val
          \<longrightarrow> GetVar (extras sp) var = Some val)
    \<and> (\<forall>i. SpecDataGetKeyPair sp i = GetVarI (Dict sp) i)
    \<and> to_P4Result (spec_result (Some sp))
        = Inr (DictionaryResult (to_Dictionary (Dict sp) Map.empty))
    \<and> (\<forall>x i. SpecDataGetKeyPair (sp\<lparr>extras := x\<rparr>) i = SpecDataGetKeyPair sp i)
    \<and> (\<forall>x. to_P4Result (spec_result (Some (sp\<lparr>extras := x\<rparr>)))
            = to_P4Result (spec_result (Some sp)))"
proof -
  from assms have d: "Dict sp = fst (Spec_ParseNoValid sapi specDef (Spec_Format sapi specDef rec)
                          (Spec_new sapi specDef MakeError))"
    and e: "extras sp = extraTags (Suc (length rec)) 0 rec []"
    and f: "\<not> Dict_freed sp"
    by (auto simp add: StrDictToSpec_def Let_def split: if_splits prod.splits)
  have c: "\<forall>k var val.
          (\<forall>j \<le> k. GetVar rec (''extraTag'' @ decimal j) \<noteq> None)
          \<and> GetVar rec (''extraTag'' @ decimal k) = Some var \<and> GetVar rec var = Some val
          \<longrightarrow> GetVar (extras sp) var = Some val"
    unfolding e using extraTags_captured by blast
  show ?thesis
    using d c f
    by (simp add: SpecDataGetKeyPair_def to_P4Result_def spec_result_def new_P4GoResult_def)
qed

text \<open>
  An instance: a stream record with the extra tag \<^verbatim>\<open>firmerThanParent\<close>, and an
  API that renders and parses the two fields of the definition. The tag is
  captured in \<^verbatim>\<open>extras\<close>; the spec that is iterated and handed to Go has the two
  fields only.
\<close>

theorem extras_captured_not_exposed_witness:
  "(let rec = [(''Stream'', ''//Stream/MAIN''), (''Type'', ''mainline''),
               (''extraTag0'', ''firmerThanParent''), (''firmerThanParent'', ''n/a'')];
        sapi = fixed_SpecApi ''Stream: //Stream/MAIN''
                 [(''Stream'', ''//Stream/MAIN''), (''Type'', ''mainline'')];
        sp = the (StrDictToSpec sapi rec ''Stream;code:701;rq;ro;len:64;;'')
    in StrDictToSpec sapi rec ''Stream;code:701;rq;ro;len:64;;'' = Some sp
       \<and> GetVar (extras sp) ''firmerThanParent'' = Some ''n/a''
       \<and> SpecDataGetKeyPair sp 0 = Some (''Stream'', ''//Stream/MAIN'')
       \<and> SpecDataGetKeyPair sp 1 = Some (''Type'', ''mainline'')
       \<and> SpecDataGetKeyPair sp 2 = None
       \<and> to_P4Result (spec_result (Some sp))
            = Inr (DictionaryResult [''Stream'' \<mapsto> ''//Stream/MAIN'', ''Type'' \<mapsto> ''mainline'']))"
proof -
  let ?rc = "[(''Stream'', ''//Stream/MAIN''), (''Type'', ''mainline''),
                (''extraTag0'', ''firmerThanParent''), (''firmerThanParent'', ''n/a'')]"
  let ?sapi = "fixed_SpecApi ''Stream: //Stream/MAIN''
                 [(''Stream'', ''//Stream/MAIN''), (''Type'', ''mainline'')]"
  let ?sd = "''Stream;code:701;rq;ro;len:64;;''"
  let ?sp = "the (StrDictToSpec ?sapi ?rc ?sd)"
  have s: "StrDictToSpec ?sapi ?rc ?sd = Some ?sp"
    by (simp add: StrDictToSpec_def fixed_SpecApi_def Let_def Error_Test_def MakeError_def)
  have g: "(\<forall>j \<le> 0. GetVar ?rc (''extraTag'' @ decimal j) \<noteq> None)
           \<and> GetVar ?rc (''extraTag'' @ decimal 0) = Some ''firmerThanParent''
           \<and> GetVar ?rc ''firmerThanParent'' = Some ''n/a''"
    by (simp add: GetVar_def decimal_def)
  have p: "fst (Spec_ParseNoValid ?sapi ?sd (Spec_Format ?sapi ?sd ?rc) (Spec_new ?sapi ?sd MakeError))
      = [(''Stream'', ''//Stream/MAIN''), (''Type'', ''mainline'')]"
    by (simp add: fixed_SpecApi_def)
  note t = extras_captured_not_exposed [OF s]
  have cap: "\<forall>k var val.
          (\<forall>j \<le> k. GetVar ?rc (''extraTag'' @ decimal j) \<noteq> None)
          \<and> GetVar ?rc (''extraTag'' @ decimal k) = Some var \<and> GetVar ?rc var = Some val
          \<longrightarrow> GetVar (extras ?sp) var = Some val"
    by (rule conjunct1 [OF conjunct2 [OF t]])
  have x: "GetVar (extras ?sp) ''firmerThanParent'' = Some ''n/a''"
    by (rule cap [rule_format, of 0 "''firmerThanParent''" "''n/a''"]) (rule g)
  have dd: "Dict ?sp = fst (Spec_ParseNoValid ?sapi ?sd (Spec_Format ?sapi ?sd ?rc)
                          (Spec_new ?sapi ?sd MakeError))"
    by (rule conjunct1 [OF t])
  have y1: "Dict ?sp = [(''Stream'', ''//Stream/MAIN''), (''Type'', ''mainline'')]"
    by (simp only: dd p)
  have y2: "\<forall>i. SpecDataGetKeyPair ?sp i = GetVarI (Dict ?sp) i"
    by (rule conjunct1 [OF conjunct2 [OF conjunct2 [OF t]]])
  have y3: "to_P4Result (spec_result (Some ?sp))
        = Inr (DictionaryResult (to_Dictionary (Dict ?sp) Map.empty))"
    by (rule conjunct1 [OF conjunct2 [OF conjunct2 [OF conjunct2 [OF t]]]])
  have k0: "SpecDataGetKeyPair ?sp 0 = Some (''Stream'', ''//Stream/MAIN'')"
    and k1: "SpecDataGetKeyPair ?sp 1 = Some (''Type'', ''mainline'')"
    and k2: "SpecDataGetKeyPair ?sp 2 = None"
    by (simp_all only: y2 [rule_format] y1) (simp_all add: GetVarI_def)
  have go: "to_P4Result (spec_result (Some ?sp))
            = Inr (DictionaryResult [''Stream'' \<mapsto> ''//Stream/MAIN'', ''Type'' \<mapsto> ''mainline''])"
    by (simp only: y3 y1) (simp add: to_Dictionary_def)
  show ?thesis
    unfolding Let_def by (intro conjI s x k0 k1 k2 go)
qed

end
